theory Spec2Isabelle
  imports Main
begin

section \<open>Python string helpers used by both servers\<close>

text \<open>
  Strings are lists of 8-bit characters. \<open>py_isspace\<close> lists the code points below 256
  that Python's \<open>str.isspace\<close> accepts; \<open>strip\<close> is \<open>str.strip()\<close> without argument,
  \<open>split\<close> is \<open>str.split()\<close> without argument (runs of whitespace separate the words, no
  empty word is produced) and \<open>lower\<close> is \<open>str.lower()\<close> on the same range of characters.
  \<open>str_int\<close> is \<open>str\<close> applied to an integer.
\<close>

definition py_isspace :: "char \<Rightarrow> bool" where
  "py_isspace c = ((of_char c :: nat) \<in> {9, 10, 11, 12, 13, 28, 29, 30, 31, 32, 133, 160})"

definition strip :: "string \<Rightarrow> string" where
  "strip s = rev (dropWhile py_isspace (rev (dropWhile py_isspace s)))"

fun split_from :: "string \<Rightarrow> string \<Rightarrow> string list" where
  "split_from cur [] = (if cur = [] then [] else [rev cur])"
| "split_from cur (c # cs) =
     (if py_isspace c
      then (if cur = [] then split_from [] cs else rev cur # split_from [] cs)
      else split_from (c # cur) cs)"

definition split :: "string \<Rightarrow> string list" where
  "split s = split_from [] s"

definition lower_char :: "char \<Rightarrow> char" where
  "lower_char c =
     (let n = (of_char c :: nat)
      in if (65 \<le> n \<and> n \<le> 90) \<or> (192 \<le> n \<and> n \<le> 222 \<and> n \<noteq> 215)
         then char_of (n + 32) else c)"

definition lower :: "string \<Rightarrow> string" where
  "lower s = map lower_char s"

definition digit_char :: "nat \<Rightarrow> char" where
  "digit_char d = char_of (48 + d)"

fun str_nat :: "nat \<Rightarrow> string" where
  "str_nat n = (if n < 10 then [digit_char n] else str_nat (n div 10) @ [digit_char (n mod 10)])"

declare str_nat.simps [simp del]

definition str_int :: "int \<Rightarrow> string" where
  "str_int i = (if i < 0 then CHR ''-'' # str_nat (nat (- i)) else str_nat (nat i))"

section \<open>Responses\<close>

text \<open>
  A patient row of \<open>healthcare_data['patients']\<close>: the two keys the access checks read,
  and the remaining keys as an association list.
\<close>

record patient =
  id_no :: int
  patient_id :: string
  other_fields :: "(string \<times> string) list"

text \<open>
  \<open>jsonify(body), status\<close> is \<open>Json body status\<close>; flask's \<open>abort(status, description)\<close>
  is \<open>Abort status description\<close>. \<open>JIso t\<close> is the ISO-8601 text of the time \<open>t\<close>.
\<close>

datatype json = JStr string | JBool bool | JInt int | JIso int | JPatient patient

datatype response = Json "(string \<times> json) list" nat | Abort nat string

section \<open>src/api/app.py: doctor OTP login with signed session tokens\<close>

text \<open>
  Time is the integer number of seconds since the epoch, as \<open>now_ts()\<close> returns it; every
  request reads the clock once. The in-memory backend is modelled (\<open>USE_REDIS\<close> is false
  unless configured and installed).
\<close>

record otp_payload =
  h :: string
  salt :: string
  expires_at :: int

record jwt_payload =
  sub :: string
  exp :: int
  iat :: int
  jti :: "string option"

text \<open>
  The configuration read from the environment, and the library functions of the source
  that are not part of the repository: \<open>hmac_sha256_hex key msg\<close> is
  \<open>hmac.new(key, msg, hashlib.sha256).hexdigest()\<close>; \<open>jwt_encode payload key\<close> is
  \<open>jwt.encode(payload, key, algorithm="HS256")\<close>; \<open>jwt_verify token key\<close> is the
  signature check of \<open>jwt.decode\<close>: the claims of a well-formed token whose signature
  verifies under the key, \<open>None\<close> otherwise. \<open>utc_offset\<close> is the offset of the server's
  local time zone, which \<open>exp.timestamp()\<close> on a naive datetime applies.
\<close>

record app_env =
  JWT_SECRET :: string
  OTP_LENGTH :: int
  OTP_VALIDITY_SECONDS :: int
  SESSION_EXPIRY_SECONDS :: int
  utc_offset :: int
  hmac_sha256_hex :: "string \<Rightarrow> string \<Rightarrow> string"
  jwt_encode :: "jwt_payload \<Rightarrow> string \<Rightarrow> string"
  jwt_verify :: "string \<Rightarrow> string \<Rightarrow> jwt_payload option"

record app_state =
  app_otp_store :: "string \<rightharpoonup> otp_payload"
  session_blacklist :: "string \<rightharpoonup> int"

definition hash_otp :: "app_env \<Rightarrow> string \<Rightarrow> string \<Rightarrow> string" where
  "hash_otp env otp_s salt_s = hmac_sha256_hex env salt_s otp_s"

definition otp_key :: "string \<Rightarrow> string" where
  "otp_key doctor_id = ''otp:'' @ doctor_id"

text \<open>\<open>token_hex\<close> is the value drawn by \<open>secrets.token_hex(16)\<close>.\<close>

definition store_otp :: "app_env \<Rightarrow> app_state \<Rightarrow> int \<Rightarrow> string \<Rightarrow> string \<Rightarrow> string \<Rightarrow> int \<Rightarrow> app_state" where
  "store_otp env st now token_hex doctor_id otp_s ttl =
     (let salt_s = token_hex;
          hh = hash_otp env otp_s salt_s;
          e = now + ttl;
          payload = \<lparr>h = hh, salt = salt_s, expires_at = e\<rparr>
      in st\<lparr>app_otp_store := (app_otp_store st)(otp_key doctor_id \<mapsto> payload)\<rparr>)"

definition get_otp_record :: "app_state \<Rightarrow> string \<Rightarrow> otp_payload option" where
  "get_otp_record st doctor_id = app_otp_store st (otp_key doctor_id)"

definition remove_otp :: "app_state \<Rightarrow> string \<Rightarrow> app_state" where
  "remove_otp st doctor_id = st\<lparr>app_otp_store := (app_otp_store st)(otp_key doctor_id := None)\<rparr>"

definition create_session_token :: "app_env \<Rightarrow> int \<Rightarrow> string \<Rightarrow> string \<Rightarrow> int \<Rightarrow> string \<times> string \<times> int" where
  "create_session_token env now token_hex doctor_id expiry_seconds =
     (let e = now + expiry_seconds;
          j = token_hex;
          payload = \<lparr>sub = doctor_id, exp = e, iat = now, jti = Some j\<rparr>;
          token = jwt_encode env payload (JWT_SECRET env)
      in (token, j, e - utc_offset env))"

definition blacklist_session :: "app_state \<Rightarrow> string \<Rightarrow> int \<Rightarrow> app_state" where
  "blacklist_session st j expires_at_ts =
     st\<lparr>session_blacklist := (session_blacklist st)(j \<mapsto> expires_at_ts)\<rparr>"

text \<open>\<open>not exp\<close> is true for a missing entry and for the entry 0.\<close>

definition is_blacklisted :: "app_state \<Rightarrow> int \<Rightarrow> string \<Rightarrow> bool \<times> app_state" where
  "is_blacklisted st now j =
     (case session_blacklist st j of
        None \<Rightarrow> (False, st)
      | Some e \<Rightarrow>
          if e = 0 then (False, st)
          else if now \<ge> e
               then (False, st\<lparr>session_blacklist := (session_blacklist st)(j := None)\<rparr>)
               else (True, st))"

text \<open>\<open>rand_digit i\<close> is the \<open>i\<close>-th value drawn by \<open>secrets.randbelow(10)\<close>.\<close>

definition generate_otp :: "(nat \<Rightarrow> nat) \<Rightarrow> int \<Rightarrow> string" where
  "generate_otp rand_digit len = concat (map (\<lambda>i. str_nat (rand_digit i)) [0..<nat len])"

text \<open>
  The request body is given by its fields; a missing field is the empty string, which is
  what \<open>data.get(k) or ""\<close> makes of it.
\<close>

definition app_api_request_otp ::
  "app_env \<Rightarrow> app_state \<Rightarrow> int \<Rightarrow> (nat \<Rightarrow> nat) \<Rightarrow> string \<Rightarrow> string \<Rightarrow> response \<times> app_state" where
  "app_api_request_otp env st now rand_digit token_hex doctor_id_in =
     (let doctor_id = strip doctor_id_in
      in if doctor_id = [] then (Json [(''error'', JStr ''doctor_id required'')] 400, st)
         else
           let otp_s = generate_otp rand_digit (OTP_LENGTH env);
               st' = store_otp env st now token_hex doctor_id otp_s (OTP_VALIDITY_SECONDS env)
           in (Json [(''ok'', JBool True),
                     (''message'', JStr ''OTP generated and sent (demo)''),
                     (''otp_validity_seconds'', JInt (OTP_VALIDITY_SECONDS env))] 200, st'))"

text \<open>\<open>hmac.compare_digest\<close> on two strings returns whether they are equal.\<close>

definition app_api_verify_otp ::
  "app_env \<Rightarrow> app_state \<Rightarrow> int \<Rightarrow> string \<Rightarrow> string \<Rightarrow> string \<Rightarrow> response \<times> app_state" where
  "app_api_verify_otp env st now token_hex doctor_id_in otp_field =
     (let doctor_id = strip doctor_id_in;
          otp_in = strip otp_field
      in if doctor_id = [] \<or> otp_in = []
         then (Json [(''error'', JStr ''doctor_id and otp required'')] 400, st)
         else
           (case get_otp_record st doctor_id of
             None \<Rightarrow> (Json [(''error'', JStr ''no valid otp found for this identifier or it expired'')] 400, st)
           | Some rec \<Rightarrow>
               if now > expires_at rec
               then (Json [(''error'', JStr ''otp expired'')] 400, remove_otp st doctor_id)
               else if \<not> (h rec = hash_otp env otp_in (salt rec))
               then (Json [(''error'', JStr ''invalid otp'')] 401, st)
               else
                 let st' = remove_otp st doctor_id;
                     (token, j, expires_at_ts) =
                        create_session_token env now token_hex doctor_id (SESSION_EXPIRY_SECONDS env)
                 in (Json [(''ok'', JBool True),
                           (''token'', JStr token),
                           (''expires_at'', JInt expires_at_ts),
                           (''session_expires_in_seconds'', JInt (SESSION_EXPIRY_SECONDS env))] 200, st')))"

datatype jwt_error = ExpiredSignatureError | InvalidTokenError

text \<open>
  Modelled from the spec: \<open>jwt.decode\<close> belongs to the PyJWT library, which is not under
  src/. The signature is verified before any claim is trusted, and a token is accepted only
  while the current time is before its \<open>exp\<close>.
\<close>

definition jwt_decode :: "app_env \<Rightarrow> int \<Rightarrow> string \<Rightarrow> string \<Rightarrow> jwt_error + jwt_payload" where
  "jwt_decode env now token key =
     (case jwt_verify env token key of
        None \<Rightarrow> Inl InvalidTokenError
      | Some payload \<Rightarrow> if exp payload \<le> now then Inl ExpiredSignatureError else Inr payload)"

text \<open>The header is \<open>None\<close> when the request carries no Authorization header.\<close>

definition decode_token_and_validate ::
  "app_env \<Rightarrow> app_state \<Rightarrow> int \<Rightarrow> string option \<Rightarrow> (response + jwt_payload) \<times> app_state" where
  "decode_token_and_validate env st now auth_header =
     (case auth_header of
        None \<Rightarrow> (Inl (Abort 401 ''missing authorization header''), st)
      | Some hdr \<Rightarrow>
          if hdr = [] then (Inl (Abort 401 ''missing authorization header''), st)
          else
            (case split hdr of
              [p0, token] \<Rightarrow>
                if lower p0 \<noteq> ''bearer''
                then (Inl (Abort 401 ''invalid authorization header''), st)
                else
                  (case jwt_decode env now token (JWT_SECRET env) of
                     Inl ExpiredSignatureError \<Rightarrow> (Inl (Abort 401 ''token expired''), st)
                   | Inl InvalidTokenError \<Rightarrow> (Inl (Abort 401 ''invalid token''), st)
                   | Inr payload \<Rightarrow>
                       (case jti payload of
                          None \<Rightarrow> (Inl (Abort 401 ''invalid token payload''), st)
                        | Some j \<Rightarrow>
                            if j = [] then (Inl (Abort 401 ''invalid token payload''), st)
                            else
                              let (b, st') = is_blacklisted st now j
                              in if b then (Inl (Abort 401 ''session invalidated''), st')
                                 else (Inr payload, st')))
            | _ \<Rightarrow> (Inl (Abort 401 ''invalid authorization header''), st)))"

definition api_logout :: "app_env \<Rightarrow> app_state \<Rightarrow> int \<Rightarrow> string option \<Rightarrow> response \<times> app_state" where
  "api_logout env st now auth_header =
     (case decode_token_and_validate env st now auth_header of
        (Inl r, st') \<Rightarrow> (r, st')
      | (Inr payload, st') \<Rightarrow>
          let exp_ts = exp payload;
              st'' = (case jti payload of
                        None \<Rightarrow> st'
                      | Some j \<Rightarrow> if j = [] then st' else blacklist_session st' j exp_ts)
          in (Json [(''ok'', JBool True), (''message'', JStr ''logged out'')] 200, st''))"

section \<open>src/healthcare_app.py: employee OTP login and patient consent\<close>

text \<open>
  Times are integers (the instant a naive UTC \<open>datetime\<close> denotes); every request reads
  the clock once. The flask \<open>session\<close> is the signed per-client cookie; it is passed in and
  returned. The grant stored in the session keeps its expiry as the time itself: the source
  stores \<open>isoformat()\<close> of it and reads it back with \<open>fromisoformat\<close>, which returns the
  same time, so the \<open>except\<close> branch of that read is not reached on a grant the server wrote.
  A body field that is missing or falsy is the empty string; otherwise \<open>otp_field\<close> is
  \<open>str(otp)\<close>.
\<close>

text \<open>
  An entry of \<open>USERS['employee']\<close> has the keys password, name, role and employee_id, an
  entry of \<open>USERS['patient']\<close> the keys password, name and patient_id; the last argument
  holds the further keys that \<open>/register\<close> adds. \<open>USERS\<close> is mutable: \<open>/register\<close> and
  \<open>POST /api/employees\<close> add logins and \<open>DELETE /api/employees/<id>\<close> removes them, so the
  table of employee logins is a field of the server state, and \<open>USERS_employee_initial\<close> is
  its value when the server starts.
\<close>

datatype user_data =
    EmployeeData string string string int "(string \<times> string) list"
  | PatientData string string int "(string \<times> string) list"

definition USERS_employee_initial :: "(string \<times> user_data) list" where
  "USERS_employee_initial =
     [(''emp001'', EmployeeData ''emp123'' ''Dr. John Smith'' ''Doctor'' 1 []),
      (''emp002'', EmployeeData ''emp123'' ''Sarah Johnson'' ''Nurse'' 2 []),
      (''admin'', EmployeeData ''admin123'' ''Admin User'' ''Administrator'' 0 [])]"

record otp_entry =
  otp :: string
  otp_expires_at :: int
  attempts :: int

record patient_otp_entry =
  p_otp :: string
  p_expires_at :: int
  p_attempts :: int
  p_patient_id :: string

record access =
  access_patient_id :: string
  access_expires_at :: int

record session =
  user_type :: "string option"
  username :: "string option"
  session_user_data :: "user_data option"
  patient_access :: "access option"

record hc_env =
  OTP_TTL_SECONDS :: int
  MAX_OTP_ATTEMPTS :: int
  PATIENT_OTP_TTL_SECONDS :: int
  PATIENT_ACCESS_SECONDS :: int

record hc_state =
  USERS_employee :: "string \<rightharpoonup> user_data"
  otp_store :: "string \<rightharpoonup> otp_entry"
  patient_otp_store :: "string \<rightharpoonup> patient_otp_entry"
  patients :: "patient list"

text \<open>\<open>rand\<close> is the value drawn by \<open>random.randint(100000, 999999)\<close>.\<close>

definition generate_otp_hc :: "int \<Rightarrow> string" where
  "generate_otp_hc rand = str_int rand"

definition gen_otp :: "int \<Rightarrow> string" where
  "gen_otp rand = str_int rand"

definition request_otp_for :: "hc_env \<Rightarrow> hc_state \<Rightarrow> int \<Rightarrow> int \<Rightarrow> string \<Rightarrow> string \<times> hc_state" where
  "request_otp_for env st now rand identifier =
     (let otp_s = generate_otp_hc rand;
          e = now + OTP_TTL_SECONDS env
      in (otp_s, st\<lparr>otp_store := (otp_store st)(identifier \<mapsto>
                       \<lparr>otp = otp_s, otp_expires_at = e, attempts = 0\<rparr>)\<rparr>))"

text \<open>One pass of the loop body of \<open>otp_cleanup_task\<close>, which runs every 60 seconds.\<close>

definition otp_cleanup_pass :: "hc_state \<Rightarrow> int \<Rightarrow> hc_state" where
  "otp_cleanup_pass st now =
     st\<lparr>otp_store := (\<lambda>k. case otp_store st k of
                              None \<Rightarrow> None
                            | Some v \<Rightarrow> if otp_expires_at v < now then None else Some v)\<rparr>"

definition api_request_patient_otp ::
  "hc_env \<Rightarrow> hc_state \<Rightarrow> session \<Rightarrow> int \<Rightarrow> int \<Rightarrow> string \<Rightarrow> string \<Rightarrow> response \<times> hc_state" where
  "api_request_patient_otp env st sess now rand phone patient_id_in =
     (if user_type sess \<noteq> Some ''employee''
      then (Json [(''ok'', JBool False), (''error'', JStr ''unauthorized'')] 403, st)
      else if phone = [] \<or> patient_id_in = []
      then (Json [(''ok'', JBool False), (''error'', JStr ''phone and patient_id required'')] 400, st)
      else if \<not> list_ex (\<lambda>p. patient_id p = patient_id_in) (patients st)
      then (Json [(''ok'', JBool False), (''error'', JStr ''patient not found'')] 404, st)
      else
        let otp_s = gen_otp rand;
            e = now + PATIENT_OTP_TTL_SECONDS env
        in (Json [(''ok'', JBool True), (''message'', JStr ''OTP sent (dev mode log)'')] 200,
            st\<lparr>patient_otp_store := (patient_otp_store st)(phone \<mapsto>
                  \<lparr>p_otp = otp_s, p_expires_at = e, p_attempts = 0, p_patient_id = patient_id_in\<rparr>)\<rparr>))"

definition api_verify_patient_otp ::
  "hc_env \<Rightarrow> hc_state \<Rightarrow> session \<Rightarrow> int \<Rightarrow> string \<Rightarrow> string \<Rightarrow> response \<times> hc_state \<times> session" where
  "api_verify_patient_otp env st sess now phone otp_field =
     (if user_type sess \<noteq> Some ''employee''
      then (Json [(''ok'', JBool False), (''error'', JStr ''unauthorized'')] 403, st, sess)
      else if phone = [] \<or> otp_field = []
      then (Json [(''ok'', JBool False), (''error'', JStr ''phone and otp required'')] 400, st, sess)
      else
        (case patient_otp_store st phone of
           None \<Rightarrow> (Json [(''ok'', JBool False), (''error'', JStr ''otp not requested for this phone'')] 400, st, sess)
         | Some record \<Rightarrow>
             if now > p_expires_at record
             then (Json [(''ok'', JBool False), (''error'', JStr ''otp expired'')] 400,
                   st\<lparr>patient_otp_store := (patient_otp_store st)(phone := None)\<rparr>, sess)
             else if p_otp record \<noteq> strip otp_field
             then
               let record' = record\<lparr>p_attempts := p_attempts record + 1\<rparr>
               in if p_attempts record' > 5
                  then (Json [(''ok'', JBool False), (''error'', JStr ''too many attempts'')] 429,
                        st\<lparr>patient_otp_store := (patient_otp_store st)(phone := None)\<rparr>, sess)
                  else (Json [(''ok'', JBool False), (''error'', JStr ''invalid otp'')] 400,
                        st\<lparr>patient_otp_store := (patient_otp_store st)(phone \<mapsto> record')\<rparr>, sess)
             else
               let access_expires = now + PATIENT_ACCESS_SECONDS env;
                   sess' = sess\<lparr>patient_access :=
                             Some \<lparr>access_patient_id = p_patient_id record,
                                   access_expires_at = access_expires\<rparr>\<rparr>
               in (Json [(''ok'', JBool True), (''message'', JStr ''OTP verified''),
                         (''access_expires_in'', JInt (PATIENT_ACCESS_SECONDS env))] 200,
                   st\<lparr>patient_otp_store := (patient_otp_store st)(phone := None)\<rparr>, sess')))"

definition find_patient :: "patient list \<Rightarrow> string \<Rightarrow> patient option" where
  "find_patient ps patient_id_in =
     List.find (\<lambda>p. patient_id p = patient_id_in \<or> str_int (id_no p) = patient_id_in) ps"

text \<open>
  \<open>session['user_data']\<close> is set together with \<open>session['user_type']\<close>; where it is missing
  the source raises \<open>KeyError\<close>, which flask answers with status 500.
\<close>

definition hc_api_get_patient ::
  "hc_state \<Rightarrow> session \<Rightarrow> int \<Rightarrow> string \<Rightarrow> response \<times> session" where
  "hc_api_get_patient st sess now patient_id_in =
     (case user_type sess of
        None \<Rightarrow> (Json [(''error'', JStr ''Unauthorized'')] 403, sess)
      | Some ut \<Rightarrow>
          (case find_patient (patients st) patient_id_in of
             None \<Rightarrow> (Json [(''error'', JStr ''Not found'')] 404, sess)
           | Some pat \<Rightarrow>
               if ut = ''patient''
               then
                 (case session_user_data sess of
                    None \<Rightarrow> (Abort 500 ''KeyError'', sess)
                  | Some (PatientData pw nm sess_pid oth) \<Rightarrow>
                      if sess_pid = id_no pat
                      then (Json [(''patient'', JPatient pat)] 200, sess)
                      else (Json [(''error'', JStr ''Unauthorized'')] 403, sess)
                  | Some (EmployeeData pw nm rl eid oth) \<Rightarrow>
                      (Json [(''error'', JStr ''Unauthorized'')] 403, sess))
               else if ut = ''employee''
               then
                 (case patient_access sess of
                    None \<Rightarrow> (Json [(''error'', JStr ''access_required''),
                                     (''message'', JStr ''OTP verification required'')] 401, sess)
                  | Some acc \<Rightarrow>
                      if now > access_expires_at acc
                      then (Json [(''error'', JStr ''access_expired''),
                                  (''message'', JStr ''Access expired'')] 401,
                            sess\<lparr>patient_access := None\<rparr>)
                      else if access_patient_id acc \<noteq> patient_id pat
                      then (Json [(''error'', JStr ''access_mismatch''),
                                  (''message'', JStr ''OTP was for a different patient'')] 403, sess)
                      else (Json [(''patient'', JPatient pat),
                                  (''access_expires_at'', JIso (access_expires_at acc))] 200, sess))
               else (Json [(''error'', JStr ''Unauthorized'')] 403, sess)))"

text \<open>
  \<open>request_otp_for\<close> raises nothing, so the \<open>except\<close> branch of the endpoint (status 500)
  is not reached.
\<close>

definition hc_api_request_otp ::
  "hc_env \<Rightarrow> hc_state \<Rightarrow> int \<Rightarrow> int \<Rightarrow> string \<Rightarrow> response \<times> hc_state" where
  "hc_api_request_otp env st now rand identifier =
     (if identifier = []
      then (Json [(''ok'', JBool False), (''error'', JStr ''identifier required'')] 400, st)
      else if USERS_employee st identifier = None
      then (Json [(''ok'', JBool False), (''error'', JStr ''unknown employee identifier'')] 404, st)
      else
        let (otp_s, st') = request_otp_for env st now rand identifier
        in (Json [(''ok'', JBool True), (''message'', JStr ''OTP generated (dev-log).'')] 200, st'))"

definition hc_api_verify_otp ::
  "hc_env \<Rightarrow> hc_state \<Rightarrow> session \<Rightarrow> int \<Rightarrow> string \<Rightarrow> string \<Rightarrow> response \<times> hc_state \<times> session" where
  "hc_api_verify_otp env st sess now identifier otp_field =
     (if identifier = [] \<or> otp_field = []
      then (Json [(''ok'', JBool False), (''error'', JStr ''identifier and otp required'')] 400, st, sess)
      else
        (case otp_store st identifier of
           None \<Rightarrow> (Json [(''ok'', JBool False), (''error'', JStr ''no OTP requested for this identifier'')] 400, st, sess)
         | Some record \<Rightarrow>
             let record' = record\<lparr>attempts := attempts record + 1\<rparr>;
                 st1 = st\<lparr>otp_store := (otp_store st)(identifier \<mapsto> record')\<rparr>;
                 st0 = st\<lparr>otp_store := (otp_store st)(identifier := None)\<rparr>
             in if attempts record' > MAX_OTP_ATTEMPTS env
                then (Json [(''ok'', JBool False), (''error'', JStr ''too many attempts'')] 429, st0, sess)
                else if now > otp_expires_at record'
                then (Json [(''ok'', JBool False), (''error'', JStr ''otp expired'')] 400, st0, sess)
                else if otp record' \<noteq> strip otp_field
                then (Json [(''ok'', JBool False), (''error'', JStr ''invalid otp'')] 400, st1, sess)
                else
                  (case USERS_employee st identifier of
                     None \<Rightarrow> (Json [(''ok'', JBool False), (''error'', JStr ''employee not found'')] 404, st0, sess)
                   | Some ud \<Rightarrow>
                       (Json [(''ok'', JBool True), (''message'', JStr ''OTP verified''),
                              (''redirect'', JStr ''/employee_dashboard'')] 200,
                        st0,
                        sess\<lparr>user_type := Some ''employee'', username := Some identifier,
                             session_user_data := Some ud\<rparr>))))"

section \<open>Clients that verify repeatedly\<close>

text \<open>
  A client of src/api/app.py that sends the verify requests of a list one after the other,
  each with the time of the request, the value \<open>secrets.token_hex\<close> would draw and the
  candidate; and the same for the employee login of src/healthcare_app.py.
\<close>

fun app_verify_all ::
  "app_env \<Rightarrow> app_state \<Rightarrow> string \<Rightarrow> (int \<times> string \<times> string) list \<Rightarrow> response list \<times> app_state" where
  "app_verify_all env st doctor_id_in [] = ([], st)"
| "app_verify_all env st doctor_id_in ((t, j, g) # gs) =
     (let (r, st') = app_api_verify_otp env st t j doctor_id_in g;
          (rs, st'') = app_verify_all env st' doctor_id_in gs
      in (r # rs, st''))"


section \<open>Concrete configurations and inputs\<close>

text \<open>
  The default configuration of src/api/app.py, with small stand-ins for the HMAC and for
  the token library: two tokens verify under the key, both for the subject alice.
\<close>

definition demo_app_env :: app_env where
  "demo_app_env =
     \<lparr>JWT_SECRET = ''replace_this_with_strong_secret'',
      OTP_LENGTH = 6,
      OTP_VALIDITY_SECONDS = 120,
      SESSION_EXPIRY_SECONDS = 120,
      utc_offset = 0,
      hmac_sha256_hex = (\<lambda>key msg. key @ CHR ''|'' # msg),
      jwt_encode = (\<lambda>payload key. case jti payload of None \<Rightarrow> ''tok-'' | Some j \<Rightarrow> ''tok-'' @ j),
      jwt_verify = (\<lambda>token key.
         if key \<noteq> ''replace_this_with_strong_secret'' then None
         else if token = ''tok-a1'' then Some \<lparr>sub = ''alice'', exp = 220, iat = 100, jti = Some ''a1''\<rparr>
         else if token = ''tok-b2'' then Some \<lparr>sub = ''alice'', exp = 230, iat = 110, jti = Some ''b2''\<rparr>
         else None)\<rparr>"

definition empty_app_state :: app_state where
  "empty_app_state = \<lparr>app_otp_store = Map.empty, session_blacklist = Map.empty\<rparr>"

definition demo_digits :: "nat \<Rightarrow> nat" where
  "demo_digits i = [4, 8, 3, 9, 2, 0] ! (i mod 6)"

text \<open>The default configuration of src/healthcare_app.py, two patients, an employee session.\<close>

definition default_hc_env :: hc_env where
  "default_hc_env =
     \<lparr>OTP_TTL_SECONDS = 300, MAX_OTP_ATTEMPTS = 5,
      PATIENT_OTP_TTL_SECONDS = 300, PATIENT_ACCESS_SECONDS = 120\<rparr>"

definition demo_patients :: "patient list" where
  "demo_patients =
     [\<lparr>id_no = 7, patient_id = ''PAT0007'', other_fields = [(''name'', ''Emily Davis'')]\<rparr>,
      \<lparr>id_no = 99, patient_id = ''PAT0099'', other_fields = [(''name'', ''Daniel Moore'')]\<rparr>]"

definition demo_hc_state :: hc_state where
  "demo_hc_state =
     \<lparr>USERS_employee = map_of USERS_employee_initial, otp_store = Map.empty,
      patient_otp_store = Map.empty, patients = demo_patients\<rparr>"

text \<open>
  The state after \<open>POST /api/employees\<close> has added the employee with id 3 and a password,
  which creates the login emp003, and \<open>DELETE /api/employees/2\<close> has removed the logins
  whose employee_id is 2, that is emp002.
\<close>

definition demo_changed_state :: hc_state where
  "demo_changed_state =
     demo_hc_state\<lparr>USERS_employee :=
       ((USERS_employee demo_hc_state)
          (''emp003'' \<mapsto> EmployeeData ''emp789'' ''Priya Nair'' ''Nurse'' 3 []))
          (''emp002'' := None)\<rparr>"

text \<open>The state after emp001 requested an OTP at time 0 and 483920 was drawn.\<close>

definition demo_pending_state :: hc_state where
  "demo_pending_state = snd (hc_api_request_otp default_hc_env demo_hc_state 0 483920 ''emp001'')"

text \<open>The state of src/api/app.py after dr1 requested an OTP at time 0.\<close>

definition demo_app_pending_state :: app_state where
  "demo_app_pending_state =
     snd (app_api_request_otp demo_app_env empty_app_state 0 demo_digits ''5a17'' ''dr1'')"

definition no_session :: session where
  "no_session = \<lparr>user_type = None, username = None, session_user_data = None, patient_access = None\<rparr>"

definition employee_session :: session where
  "employee_session =
     \<lparr>user_type = Some ''employee'', username = Some ''emp001'',
      session_user_data = Some (EmployeeData ''emp123'' ''Dr. John Smith'' ''Doctor'' 1 []),
      patient_access = None\<rparr>"

section \<open>Facts about the string helpers\<close>

lemma digit_char_not_space: "d < 10 \<Longrightarrow> \<not> py_isspace (digit_char d)"
  by (simp add: py_isspace_def digit_char_def)

lemma str_nat_not_space: "c \<in> set (str_nat n) \<Longrightarrow> \<not> py_isspace c"
proof (induction n arbitrary: c rule: str_nat.induct)
  case (1 n)
  show ?case
  proof (cases "n < 10")
    case True
    with "1.prems" have "c = digit_char n" by (subst (asm) str_nat.simps) simp
    with True show ?thesis by (simp add: digit_char_not_space)
  next
    case False
    with "1.prems" have "c \<in> set (str_nat (n div 10)) \<or> c = digit_char (n mod 10)"
      by (subst (asm) str_nat.simps) auto
    then show ?thesis
    proof
      assume "c \<in> set (str_nat (n div 10))"
      with "1.IH" False show ?thesis by simp
    next
      assume "c = digit_char (n mod 10)"
      then show ?thesis by (simp add: digit_char_not_space)
    qed
  qed
qed

lemma str_nat_nonempty: "str_nat n \<noteq> []"
  by (subst str_nat.simps) simp

lemma minus_not_space: "\<not> py_isspace CHR ''-''"
  by (simp add: py_isspace_def)

lemma str_int_not_space: "c \<in> set (str_int i) \<Longrightarrow> \<not> py_isspace c"
  by (auto simp: str_int_def str_nat_not_space minus_not_space split: if_splits)

lemma str_int_nonempty: "str_int i \<noteq> []"
  by (simp add: str_int_def str_nat_nonempty)

lemma dropWhile_none: "\<forall>c\<in>set s. \<not> P c \<Longrightarrow> dropWhile P s = s"
  by (cases s) auto

lemma strip_no_space: "\<forall>c\<in>set s. \<not> py_isspace c \<Longrightarrow> strip s = s"
  by (simp add: strip_def dropWhile_none)

lemma generate_otp_not_space: "c \<in> set (generate_otp rd len) \<Longrightarrow> \<not> py_isspace c"
  by (auto simp: generate_otp_def str_nat_not_space)

lemma generate_otp_nonempty: "0 < len \<Longrightarrow> generate_otp rd len \<noteq> []"
proof -
  assume "0 < len"
  then have "[0..<nat len] \<noteq> []" by simp
  then obtain k ks where "[0..<nat len] = k # ks" by (cases "[0..<nat len]") auto
  then show ?thesis by (simp add: generate_otp_def str_nat_nonempty)
qed

lemma strip_generate_otp: "strip (generate_otp rd len) = generate_otp rd len"
  by (rule strip_no_space) (simp add: generate_otp_not_space)

lemma strip_str_int: "strip (str_int i) = str_int i"
  by (rule strip_no_space) (simp add: str_int_not_space)

section \<open>Facts about the endpoints\<close>

lemma app_request_state:
  "strip d \<noteq> [] \<Longrightarrow>
   snd (app_api_request_otp env st t0 rd sl d) =
     store_otp env st t0 sl (strip d) (generate_otp rd (OTP_LENGTH env)) (OTP_VALIDITY_SECONDS env)"
  by (simp add: app_api_request_otp_def Let_def)

lemma get_after_store:
  "get_otp_record (store_otp env st t0 sl i o' ttl) i =
     Some \<lparr>h = hash_otp env o' sl, salt = sl, expires_at = t0 + ttl\<rparr>"
  by (simp add: get_otp_record_def store_otp_def Let_def)

lemma get_after_remove: "get_otp_record (remove_otp st i) i = None"
  by (simp add: get_otp_record_def remove_otp_def)

lemma app_verify_match:
  assumes "strip d \<noteq> []" "strip c \<noteq> []"
    and "get_otp_record st (strip d) = Some rec" "now \<le> expires_at rec"
    and "h rec = hash_otp env (strip c) (salt rec)"
  shows "app_api_verify_otp env st now j d c =
     (Json [(''ok'', JBool True),
            (''token'', JStr (fst (create_session_token env now j (strip d) (SESSION_EXPIRY_SECONDS env)))),
            (''expires_at'', JInt (snd (snd (create_session_token env now j (strip d) (SESSION_EXPIRY_SECONDS env))))),
            (''session_expires_in_seconds'', JInt (SESSION_EXPIRY_SECONDS env))] 200,
      remove_otp st (strip d))"
  using assms by (simp add: app_api_verify_otp_def Let_def split: prod.splits)

lemma app_verify_absent:
  assumes "strip d \<noteq> []" "strip c \<noteq> []" "get_otp_record st (strip d) = None"
  shows "app_api_verify_otp env st now j d c =
     (Json [(''error'', JStr ''no valid otp found for this identifier or it expired'')] 400, st)"
  using assms by (simp add: app_api_verify_otp_def Let_def)

lemma hc_request_state:
  "i \<noteq> [] \<Longrightarrow> USERS_employee st i = Some ud \<Longrightarrow>
   snd (hc_api_request_otp env st t0 rand i) =
     st\<lparr>otp_store := (otp_store st)(i \<mapsto>
           \<lparr>otp = generate_otp_hc rand, otp_expires_at = t0 + OTP_TTL_SECONDS env, attempts = 0\<rparr>)\<rparr>"
  by (simp add: hc_api_request_otp_def request_otp_for_def Let_def)

lemma hc_verify_match:
  assumes "USERS_employee st i = Some ud" "c \<noteq> []"
    and "otp_store st i = Some rec" "attempts rec + 1 \<le> MAX_OTP_ATTEMPTS env"
    and "now \<le> otp_expires_at rec" "otp rec = strip c" "i \<noteq> []"
  shows "hc_api_verify_otp env st sess now i c =
     (Json [(''ok'', JBool True), (''message'', JStr ''OTP verified''),
            (''redirect'', JStr ''/employee_dashboard'')] 200,
      st\<lparr>otp_store := (otp_store st)(i := None)\<rparr>,
      sess\<lparr>user_type := Some ''employee'', username := Some i, session_user_data := Some ud\<rparr>)"
  using assms by (simp add: hc_api_verify_otp_def Let_def)

lemma hc_verify_absent:
  assumes "i \<noteq> []" "c \<noteq> []" "otp_store st i = None"
  shows "hc_api_verify_otp env st sess now i c =
     (Json [(''ok'', JBool False), (''error'', JStr ''no OTP requested for this identifier'')] 400, st, sess)"
  using assms by (simp add: hc_api_verify_otp_def)

lemma generate_otp_hc_plain:
  "strip (generate_otp_hc rand) = generate_otp_hc rand" "generate_otp_hc rand \<noteq> []"
  by (simp_all add: generate_otp_hc_def strip_str_int str_int_nonempty)

lemma strip_dr1: "strip ''dr1'' = ''dr1''"
  by (simp add: strip_def py_isspace_def)

section \<open>One-time use of a stored OTP\<close>

text \<open>
  C1. A requested OTP is consumed by the first verify with the exact secret, in both servers:
  in src/api/app.py, for every identifier that is not blank, a configured OTP length above 0
  and a verify no later than the expiry, the verify answers 200 with a token and removes the
  record, and a second verify with the same identifier and secret gets the answer of an
  absent record and changes nothing; in src/healthcare_app.py, in every state of the
  server, for every identifier that is an employee login at the time of the request, an
  attempt ceiling of at least 1 and a verify no later than the expiry, the verify answers
  200 and removes the record, and the second verify gets the answer of an absent record.
\<close>

theorem otp_consumed_once:
  assumes "strip d \<noteq> []" and "0 < OTP_LENGTH env" and "t1 \<le> t0 + OTP_VALIDITY_SECONDS env"
    and "USERS_employee hs i = Some ud" and "1 \<le> MAX_OTP_ATTEMPTS henv"
    and "u1 \<le> u0 + OTP_TTL_SECONDS henv" and "i \<noteq> []"
  shows "(let st1 = snd (app_api_request_otp env st t0 rd sl d);
              secret = generate_otp rd (OTP_LENGTH env);
              (r1, st2) = app_api_verify_otp env st1 t1 j1 d secret;
              (r2, st3) = app_api_verify_otp env st2 t2 j2 d secret
          in (\<exists>tok e. r1 = Json [(''ok'', JBool True), (''token'', JStr tok), (''expires_at'', JInt e),
                                   (''session_expires_in_seconds'', JInt (SESSION_EXPIRY_SECONDS env))] 200)
             \<and> get_otp_record st2 (strip d) = None
             \<and> r2 = Json [(''error'', JStr ''no valid otp found for this identifier or it expired'')] 400
             \<and> st3 = st2)
         \<and>
         (let hs1 = snd (hc_api_request_otp henv hs u0 rand i);
              secret = generate_otp_hc rand;
              (r1, hs2, sess1) = hc_api_verify_otp henv hs1 sess u1 i secret;
              (r2, hs3, sess2) = hc_api_verify_otp henv hs2 sess1 u2 i secret
          in r1 = Json [(''ok'', JBool True), (''message'', JStr ''OTP verified''),
                        (''redirect'', JStr ''/employee_dashboard'')] 200
             \<and> otp_store hs2 i = None
             \<and> r2 = Json [(''ok'', JBool False), (''error'', JStr ''no OTP requested for this identifier'')] 400
             \<and> hs3 = hs2)"
proof (rule conjI)
  let ?secret = "generate_otp rd (OTP_LENGTH env)"
  let ?st1 = "store_otp env st t0 sl (strip d) ?secret (OTP_VALIDITY_SECONDS env)"
  have s: "strip ?secret = ?secret" "strip ?secret \<noteq> []"
    using assms(2) by (simp_all add: strip_generate_otp generate_otp_nonempty)
  have st1: "snd (app_api_request_otp env st t0 rd sl d) = ?st1"
    using assms(1) by (rule app_request_state)
  have v1: "app_api_verify_otp env ?st1 t1 j1 d ?secret =
     (Json [(''ok'', JBool True),
            (''token'', JStr (fst (create_session_token env t1 j1 (strip d) (SESSION_EXPIRY_SECONDS env)))),
            (''expires_at'', JInt (snd (snd (create_session_token env t1 j1 (strip d) (SESSION_EXPIRY_SECONDS env))))),
            (''session_expires_in_seconds'', JInt (SESSION_EXPIRY_SECONDS env))] 200,
      remove_otp ?st1 (strip d))"
    by (rule app_verify_match [OF assms(1) s(2) get_after_store]) (simp_all add: assms(3) s(1))
  have v2: "app_api_verify_otp env (remove_otp ?st1 (strip d)) t2 j2 d ?secret =
     (Json [(''error'', JStr ''no valid otp found for this identifier or it expired'')] 400,
      remove_otp ?st1 (strip d))"
    by (rule app_verify_absent [OF assms(1) s(2) get_after_remove])
  show "(let st1 = snd (app_api_request_otp env st t0 rd sl d);
              secret = generate_otp rd (OTP_LENGTH env);
              (r1, st2) = app_api_verify_otp env st1 t1 j1 d secret;
              (r2, st3) = app_api_verify_otp env st2 t2 j2 d secret
          in (\<exists>tok e. r1 = Json [(''ok'', JBool True), (''token'', JStr tok), (''expires_at'', JInt e),
                                   (''session_expires_in_seconds'', JInt (SESSION_EXPIRY_SECONDS env))] 200)
             \<and> get_otp_record st2 (strip d) = None
             \<and> r2 = Json [(''error'', JStr ''no valid otp found for this identifier or it expired'')] 400
             \<and> st3 = st2)"
    unfolding Let_def st1 v1 prod.case v2 by (simp add: get_after_remove)
next
  let ?secret = "generate_otp_hc rand"
  let ?rec = "\<lparr>otp = ?secret, otp_expires_at = u0 + OTP_TTL_SECONDS henv, attempts = 0\<rparr>"
  let ?hs1 = "hs\<lparr>otp_store := (otp_store hs)(i \<mapsto> ?rec)\<rparr>"
  let ?hs2 = "?hs1\<lparr>otp_store := (otp_store ?hs1)(i := None)\<rparr>"
  let ?sess1 = "sess\<lparr>user_type := Some ''employee'', username := Some i, session_user_data := Some ud\<rparr>"
  have st1: "snd (hc_api_request_otp henv hs u0 rand i) = ?hs1"
    using assms(7,4) by (rule hc_request_state)
  have us: "USERS_employee ?hs1 i = Some ud" using assms(4) by simp
  have v1: "hc_api_verify_otp henv ?hs1 sess u1 i ?secret =
     (Json [(''ok'', JBool True), (''message'', JStr ''OTP verified''),
            (''redirect'', JStr ''/employee_dashboard'')] 200, ?hs2, ?sess1)"
    by (rule hc_verify_match [OF us generate_otp_hc_plain(2), where rec = ?rec])
       (simp_all add: assms(5,6,7) generate_otp_hc_plain(1))
  have v2: "hc_api_verify_otp henv ?hs2 ?sess1 u2 i ?secret =
     (Json [(''ok'', JBool False), (''error'', JStr ''no OTP requested for this identifier'')] 400, ?hs2, ?sess1)"
    by (rule hc_verify_absent [OF assms(7) generate_otp_hc_plain(2)]) simp
  show "(let hs1 = snd (hc_api_request_otp henv hs u0 rand i);
              secret = generate_otp_hc rand;
              (r1, hs2, sess1) = hc_api_verify_otp henv hs1 sess u1 i secret;
              (r2, hs3, sess2) = hc_api_verify_otp henv hs2 sess1 u2 i secret
          in r1 = Json [(''ok'', JBool True), (''message'', JStr ''OTP verified''),
                        (''redirect'', JStr ''/employee_dashboard'')] 200
             \<and> otp_store hs2 i = None
             \<and> r2 = Json [(''ok'', JBool False), (''error'', JStr ''no OTP requested for this identifier'')] 400
             \<and> hs3 = hs2)"
    unfolding Let_def st1 v1 prod.case v2 by simp
qed

theorem otp_consumed_once_witness:
  "strip ''dr1'' \<noteq> [] \<and> 0 < OTP_LENGTH demo_app_env \<and> (10::int) \<le> 0 + OTP_VALIDITY_SECONDS demo_app_env
   \<and> USERS_employee demo_hc_state ''emp001'' =
        Some (EmployeeData ''emp123'' ''Dr. John Smith'' ''Doctor'' 1 [])
   \<and> 1 \<le> MAX_OTP_ATTEMPTS default_hc_env \<and> (10::int) \<le> 0 + OTP_TTL_SECONDS default_hc_env
   \<and> ''emp001'' \<noteq> []
   \<and> fst (app_api_verify_otp demo_app_env
            (snd (app_api_request_otp demo_app_env empty_app_state 0 demo_digits ''5a17'' ''dr1''))
            10 ''j1'' ''dr1'' (generate_otp demo_digits 6))
       = Json [(''ok'', JBool True), (''token'', JStr ''tok-j1''), (''expires_at'', JInt 130),
               (''session_expires_in_seconds'', JInt 120)] 200
   \<and> fst (hc_api_verify_otp default_hc_env
            (snd (hc_api_request_otp default_hc_env demo_hc_state 0 483920 ''emp001''))
            no_session 10 ''emp001'' (generate_otp_hc 483920))
       = Json [(''ok'', JBool True), (''message'', JStr ''OTP verified''),
               (''redirect'', JStr ''/employee_dashboard'')] 200"
proof -
  have a: "strip ''dr1'' \<noteq> []" by (simp add: strip_dr1)
  have b: "0 < OTP_LENGTH demo_app_env" by (simp add: demo_app_env_def)
  have c: "(10::int) \<le> 0 + OTP_VALIDITY_SECONDS demo_app_env" by (simp add: demo_app_env_def)
  have d: "USERS_employee demo_hc_state ''emp001'' =
             Some (EmployeeData ''emp123'' ''Dr. John Smith'' ''Doctor'' 1 [])"
    by (simp add: demo_hc_state_def USERS_employee_initial_def)
  have ne: "''emp001'' \<noteq> []" by simp
  have e: "1 \<le> MAX_OTP_ATTEMPTS default_hc_env" by (simp add: default_hc_env_def)
  have f: "(10::int) \<le> 0 + OTP_TTL_SECONDS default_hc_env" by (simp add: default_hc_env_def)
  note r = otp_consumed_once [OF a b c d e f ne, where st = empty_app_state and rd = demo_digits
      and sl = "''5a17''" and ?j1.0 = "''j1''" and ?j2.0 = "''j2''" and ?t2.0 = 20
      and rand = 483920 and sess = no_session and ?u2.0 = 20]
  have len: "OTP_LENGTH demo_app_env = 6" "SESSION_EXPIRY_SECONDS demo_app_env = 120"
    by (simp_all add: demo_app_env_def)
  have tok: "create_session_token demo_app_env 10 ''j1'' ''dr1'' 120 = (''tok-j1'', ''j1'', 130)"
    by (simp add: create_session_token_def demo_app_env_def Let_def)
  have g: "fst (app_api_verify_otp demo_app_env
            (snd (app_api_request_otp demo_app_env empty_app_state 0 demo_digits ''5a17'' ''dr1''))
            10 ''j1'' ''dr1'' (generate_otp demo_digits 6))
       = Json [(''ok'', JBool True), (''token'', JStr ''tok-j1''), (''expires_at'', JInt 130),
               (''session_expires_in_seconds'', JInt 120)] 200"
    using r [THEN conjunct1] tok
    by (auto simp: Let_def len app_api_verify_otp_def strip_dr1 split: prod.splits option.splits if_splits)
  have k: "fst (hc_api_verify_otp default_hc_env
            (snd (hc_api_request_otp default_hc_env demo_hc_state 0 483920 ''emp001''))
            no_session 10 ''emp001'' (generate_otp_hc 483920))
       = Json [(''ok'', JBool True), (''message'', JStr ''OTP verified''),
               (''redirect'', JStr ''/employee_dashboard'')] 200"
    using r [THEN conjunct2] by (simp add: Let_def split: prod.splits)
  show ?thesis using a b c d e f ne g k by blast
qed


section \<open>Session tokens: validation and revocation\<close>

lemma split_empty: "split [] = []"
  by (simp add: split_def)

lemma validate_accepted:
  assumes "fst (decode_token_and_validate env st now hdr) = Inr p"
  shows "\<exists>hs w tok j. hdr = Some hs \<and> split hs = [w, tok] \<and> lower w = ''bearer''
           \<and> jwt_verify env tok (JWT_SECRET env) = Some p \<and> jti p = Some j \<and> j \<noteq> []
           \<and> now < exp p \<and> fst (is_blacklisted st now j) = False"
  using assms
  by (auto simp: decode_token_and_validate_def jwt_decode_def Let_def
           split: option.splits if_splits list.splits sum.splits jwt_error.splits prod.splits)

lemma validate_ok:
  assumes "split hs = [w, tok]" "lower w = ''bearer''"
    and "jwt_verify env tok (JWT_SECRET env) = Some p" "now < exp p"
    and "jti p = Some j" "j \<noteq> []" "is_blacklisted st now j = (False, st')"
  shows "decode_token_and_validate env st now (Some hs) = (Inr p, st')"
proof -
  have "hs \<noteq> []" using assms(1) by (auto simp: split_empty)
  then show ?thesis
    using assms by (simp add: decode_token_and_validate_def jwt_decode_def)
qed

lemma validate_revoked:
  assumes "split hs = [w, tok]" "lower w = ''bearer''"
    and "jwt_verify env tok (JWT_SECRET env) = Some p" "now < exp p"
    and "jti p = Some j" "j \<noteq> []" "is_blacklisted st now j = (True, st')"
  shows "decode_token_and_validate env st now (Some hs) = (Inl (Abort 401 ''session invalidated''), st')"
proof -
  have "hs \<noteq> []" using assms(1) by (auto simp: split_empty)
  then show ?thesis
    using assms by (simp add: decode_token_and_validate_def jwt_decode_def)
qed

lemma not_blacklisted_live:
  assumes "fst (is_blacklisted st now j) = False" "0 \<le> now"
  shows "\<not> (\<exists>e. session_blacklist st j = Some e \<and> now < e)"
  using assms by (auto simp: is_blacklisted_def split: option.splits if_splits)

lemma split_bearer_a1: "split ''Bearer tok-a1'' = [''Bearer'', ''tok-a1'']"
  by (simp add: split_def py_isspace_def)

lemma split_bearer_b2: "split ''bearer tok-b2'' = [''bearer'', ''tok-b2'']"
  by (simp add: split_def py_isspace_def)

lemma lower_Bearer: "lower ''Bearer'' = ''bearer''" "lower ''bearer'' = ''bearer''"
  by code_simp+

text \<open>
  C2. A session token is accepted by \<open>decode_token_and_validate\<close> only if its signature
  verifies under the server key, the current time is before its \<open>exp\<close> and its \<open>jti\<close> has no
  unexpired blacklist entry (no entry at all, where entries record the expiry of their
  token, as \<open>api_logout\<close> writes them). After a logout with a token, validating that token
  before its expiry aborts with 401 session invalidated, and another live token of the same
  subject, with a different \<open>jti\<close>, still validates.
\<close>

theorem session_token_validation:
  "(fst (decode_token_and_validate env st now hdr) = Inr p \<longrightarrow>
      (\<exists>hs w tok j. hdr = Some hs \<and> split hs = [w, tok] \<and> lower w = ''bearer''
          \<and> jwt_verify env tok (JWT_SECRET env) = Some p \<and> jti p = Some j \<and> j \<noteq> []
          \<and> now < exp p
          \<and> (0 \<le> now \<longrightarrow> \<not> (\<exists>e. session_blacklist st j = Some e \<and> now < e))
          \<and> (0 \<le> now \<longrightarrow> (\<forall>e. session_blacklist st j = Some e \<longrightarrow> e = exp p)
                \<longrightarrow> session_blacklist st j = None)))
   \<and>
   (split hA = [wA, tokA] \<and> lower wA = ''bearer'' \<and> split hB = [wB, tokB] \<and> lower wB = ''bearer''
     \<and> jwt_verify env tokA (JWT_SECRET env) = Some pA \<and> jwt_verify env tokB (JWT_SECRET env) = Some pB
     \<and> jti pA = Some jA \<and> jti pB = Some jB \<and> jA \<noteq> [] \<and> jB \<noteq> [] \<and> jA \<noteq> jB \<and> sub pA = sub pB
     \<and> session_blacklist st' jA = None \<and> session_blacklist st' jB = None
     \<and> 0 \<le> t0 \<and> t0 \<le> t1 \<and> t1 < exp pA \<and> t1 < exp pB \<longrightarrow>
     (let (r0, st1) = api_logout env st' t0 (Some hA)
      in r0 = Json [(''ok'', JBool True), (''message'', JStr ''logged out'')] 200
         \<and> session_blacklist st1 jA = Some (exp pA)
         \<and> fst (decode_token_and_validate env st1 t1 (Some hA)) = Inl (Abort 401 ''session invalidated'')
         \<and> fst (decode_token_and_validate env st1 t1 (Some hB)) = Inr pB))"
proof (intro conjI impI)
  assume acc: "fst (decode_token_and_validate env st now hdr) = Inr p"
  from validate_accepted [OF acc] obtain hs w tok j where
    f: "hdr = Some hs" "split hs = [w, tok]" "lower w = ''bearer''"
       "jwt_verify env tok (JWT_SECRET env) = Some p" "jti p = Some j" "j \<noteq> []"
       "now < exp p" "fst (is_blacklisted st now j) = False"
    by blast
  have live: "0 \<le> now \<longrightarrow> \<not> (\<exists>e. session_blacklist st j = Some e \<and> now < e)"
    using not_blacklisted_live [OF f(8)] by blast
  have none: "0 \<le> now \<longrightarrow> (\<forall>e. session_blacklist st j = Some e \<longrightarrow> e = exp p)
                \<longrightarrow> session_blacklist st j = None"
  proof (intro impI)
    assume n: "0 \<le> now" and inv: "\<forall>e. session_blacklist st j = Some e \<longrightarrow> e = exp p"
    show "session_blacklist st j = None"
    proof (cases "session_blacklist st j")
      case None
      then show ?thesis .
    next
      case (Some e)
      with inv have "e = exp p" by simp
      with f(7) Some live n show ?thesis by blast
    qed
  qed
  show "\<exists>hs w tok j. hdr = Some hs \<and> split hs = [w, tok] \<and> lower w = ''bearer''
          \<and> jwt_verify env tok (JWT_SECRET env) = Some p \<and> jti p = Some j \<and> j \<noteq> []
          \<and> now < exp p
          \<and> (0 \<le> now \<longrightarrow> \<not> (\<exists>e. session_blacklist st j = Some e \<and> now < e))
          \<and> (0 \<le> now \<longrightarrow> (\<forall>e. session_blacklist st j = Some e \<longrightarrow> e = exp p)
                \<longrightarrow> session_blacklist st j = None)"
    using f(1-7) live none by blast
next
  assume a: "split hA = [wA, tokA] \<and> lower wA = ''bearer'' \<and> split hB = [wB, tokB] \<and> lower wB = ''bearer''
     \<and> jwt_verify env tokA (JWT_SECRET env) = Some pA \<and> jwt_verify env tokB (JWT_SECRET env) = Some pB
     \<and> jti pA = Some jA \<and> jti pB = Some jB \<and> jA \<noteq> [] \<and> jB \<noteq> [] \<and> jA \<noteq> jB \<and> sub pA = sub pB
     \<and> session_blacklist st' jA = None \<and> session_blacklist st' jB = None
     \<and> 0 \<le> t0 \<and> t0 \<le> t1 \<and> t1 < exp pA \<and> t1 < exp pB"
  from a have sA: "split hA = [wA, tokA]" and lA: "lower wA = ''bearer''"
    and sB: "split hB = [wB, tokB]" and lB: "lower wB = ''bearer''"
    and vfA: "jwt_verify env tokA (JWT_SECRET env) = Some pA"
    and vfB: "jwt_verify env tokB (JWT_SECRET env) = Some pB"
    and jtA: "jti pA = Some jA" and jtB: "jti pB = Some jB"
    and neA: "jA \<noteq> []" and neB: "jB \<noteq> []" and diff: "jA \<noteq> jB"
    and blA: "session_blacklist st' jA = None" and blB: "session_blacklist st' jB = None"
    and tm: "0 \<le> t0" "t0 \<le> t1" "t1 < exp pA" "t1 < exp pB"
    by simp_all
  let ?st1 = "blacklist_session st' jA (exp pA)"
  have t0: "t0 < exp pA" using tm by linarith
  have nz: "exp pA \<noteq> 0" using tm by linarith
  have b0: "is_blacklisted st' t0 jA = (False, st')"
    using blA by (simp add: is_blacklisted_def)
  have v0: "decode_token_and_validate env st' t0 (Some hA) = (Inr pA, st')"
    by (rule validate_ok [OF sA lA vfA t0 jtA neA b0])
  have lo: "api_logout env st' t0 (Some hA) =
              (Json [(''ok'', JBool True), (''message'', JStr ''logged out'')] 200, ?st1)"
    using jtA neA by (simp add: api_logout_def v0 Let_def)
  have bA: "is_blacklisted ?st1 t1 jA = (True, ?st1)"
    using nz tm by (simp add: is_blacklisted_def blacklist_session_def)
  have bB: "is_blacklisted ?st1 t1 jB = (False, ?st1)"
    using blB diff by (auto simp: is_blacklisted_def blacklist_session_def)
  have vA: "decode_token_and_validate env ?st1 t1 (Some hA) =
              (Inl (Abort 401 ''session invalidated''), ?st1)"
    by (rule validate_revoked [OF sA lA vfA tm(3) jtA neA bA])
  have vB: "decode_token_and_validate env ?st1 t1 (Some hB) = (Inr pB, ?st1)"
    by (rule validate_ok [OF sB lB vfB tm(4) jtB neB bB])
  show "(let (r0, st1) = api_logout env st' t0 (Some hA)
      in r0 = Json [(''ok'', JBool True), (''message'', JStr ''logged out'')] 200
         \<and> session_blacklist st1 jA = Some (exp pA)
         \<and> fst (decode_token_and_validate env st1 t1 (Some hA)) = Inl (Abort 401 ''session invalidated'')
         \<and> fst (decode_token_and_validate env st1 t1 (Some hB)) = Inr pB)"
    unfolding lo prod.case Let_def vA vB by (simp add: blacklist_session_def)
qed

theorem session_token_validation_witness:
  "fst (decode_token_and_validate demo_app_env empty_app_state 150 (Some ''Bearer tok-a1''))
     = Inr \<lparr>sub = ''alice'', exp = 220, iat = 100, jti = Some ''a1''\<rparr>
   \<and> (split ''Bearer tok-a1'' = [''Bearer'', ''tok-a1''] \<and> lower ''Bearer'' = ''bearer''
        \<and> split ''bearer tok-b2'' = [''bearer'', ''tok-b2''] \<and> lower ''bearer'' = ''bearer''
        \<and> jwt_verify demo_app_env ''tok-a1'' (JWT_SECRET demo_app_env)
             = Some \<lparr>sub = ''alice'', exp = 220, iat = 100, jti = Some ''a1''\<rparr>
        \<and> jwt_verify demo_app_env ''tok-b2'' (JWT_SECRET demo_app_env)
             = Some \<lparr>sub = ''alice'', exp = 230, iat = 110, jti = Some ''b2''\<rparr>
        \<and> jti \<lparr>sub = ''alice'', exp = 220, iat = 100, jti = Some ''a1''\<rparr> = Some ''a1''
        \<and> jti \<lparr>sub = ''alice'', exp = 230, iat = 110, jti = Some ''b2''\<rparr> = Some ''b2''
        \<and> ''a1'' \<noteq> [] \<and> ''b2'' \<noteq> [] \<and> ''a1'' \<noteq> ''b2''
        \<and> sub \<lparr>sub = ''alice'', exp = 220, iat = 100, jti = Some ''a1''\<rparr>
            = sub \<lparr>sub = ''alice'', exp = 230, iat = 110, jti = Some ''b2''\<rparr>
        \<and> session_blacklist empty_app_state ''a1'' = None
        \<and> session_blacklist empty_app_state ''b2'' = None
        \<and> (0::int) \<le> 150 \<and> (150::int) \<le> 160
        \<and> 160 < exp \<lparr>sub = ''alice'', exp = 220, iat = 100, jti = Some ''a1''\<rparr>
        \<and> 160 < exp \<lparr>sub = ''alice'', exp = 230, iat = 110, jti = Some ''b2''\<rparr>)
   \<and> (\<exists>tok. jwt_verify demo_app_env tok (JWT_SECRET demo_app_env)
             = Some \<lparr>sub = ''alice'', exp = 220, iat = 100, jti = Some ''a1''\<rparr>)
   \<and> fst (decode_token_and_validate demo_app_env
            (snd (api_logout demo_app_env empty_app_state 150 (Some ''Bearer tok-a1'')))
            160 (Some ''Bearer tok-a1''))
       = Inl (Abort 401 ''session invalidated'')
   \<and> fst (decode_token_and_validate demo_app_env
            (snd (api_logout demo_app_env empty_app_state 150 (Some ''Bearer tok-a1'')))
            160 (Some ''bearer tok-b2''))
       = Inr \<lparr>sub = ''alice'', exp = 230, iat = 110, jti = Some ''b2''\<rparr>"
proof -
  let ?pA = "\<lparr>sub = ''alice'', exp = 220, iat = 100, jti = Some ''a1''\<rparr>"
  let ?pB = "\<lparr>sub = ''alice'', exp = 230, iat = 110, jti = Some ''b2''\<rparr>"
  have vfA: "jwt_verify demo_app_env ''tok-a1'' (JWT_SECRET demo_app_env) = Some ?pA"
    by (simp add: demo_app_env_def)
  have vfB: "jwt_verify demo_app_env ''tok-b2'' (JWT_SECRET demo_app_env) = Some ?pB"
    by (simp add: demo_app_env_def)
  have b0: "is_blacklisted empty_app_state 150 ''a1'' = (False, empty_app_state)"
    by (simp add: is_blacklisted_def empty_app_state_def)
  have p1: "fst (decode_token_and_validate demo_app_env empty_app_state 150 (Some ''Bearer tok-a1''))
              = Inr ?pA"
    using validate_ok [OF split_bearer_a1 lower_Bearer(1) vfA _ _ _ b0] by simp
  have p2: "split ''Bearer tok-a1'' = [''Bearer'', ''tok-a1''] \<and> lower ''Bearer'' = ''bearer''
        \<and> split ''bearer tok-b2'' = [''bearer'', ''tok-b2''] \<and> lower ''bearer'' = ''bearer''
        \<and> jwt_verify demo_app_env ''tok-a1'' (JWT_SECRET demo_app_env) = Some ?pA
        \<and> jwt_verify demo_app_env ''tok-b2'' (JWT_SECRET demo_app_env) = Some ?pB
        \<and> jti ?pA = Some ''a1'' \<and> jti ?pB = Some ''b2''
        \<and> ''a1'' \<noteq> [] \<and> ''b2'' \<noteq> [] \<and> ''a1'' \<noteq> ''b2''
        \<and> sub ?pA = sub ?pB
        \<and> session_blacklist empty_app_state ''a1'' = None
        \<and> session_blacklist empty_app_state ''b2'' = None
        \<and> (0::int) \<le> 150 \<and> (150::int) \<le> 160 \<and> 160 < exp ?pA \<and> 160 < exp ?pB"
    using split_bearer_a1 split_bearer_b2 lower_Bearer vfA vfB
    by (simp add: empty_app_state_def)
  note r = session_token_validation [where env = demo_app_env and st = empty_app_state and now = 150
      and hdr = "Some ''Bearer tok-a1''" and p = ?pA
      and hA = "''Bearer tok-a1''" and wA = "''Bearer''" and tokA = "''tok-a1''"
      and hB = "''bearer tok-b2''" and wB = "''bearer''" and tokB = "''tok-b2''"
      and pA = ?pA and pB = ?pB and jA = "''a1''" and jB = "''b2''"
      and st' = empty_app_state and ?t0.0 = 150 and ?t1.0 = 160]
  have c1: "\<exists>tok. jwt_verify demo_app_env tok (JWT_SECRET demo_app_env) = Some ?pA"
    using r [THEN conjunct1, THEN mp, OF p1] by blast
  note c2 = r [THEN conjunct2, THEN mp, OF p2]
  have c3: "fst (decode_token_and_validate demo_app_env
            (snd (api_logout demo_app_env empty_app_state 150 (Some ''Bearer tok-a1'')))
            160 (Some ''Bearer tok-a1''))
       = Inl (Abort 401 ''session invalidated'')"
    using c2 by (simp add: case_prod_beta)
  have c4: "fst (decode_token_and_validate demo_app_env
            (snd (api_logout demo_app_env empty_app_state 150 (Some ''Bearer tok-a1'')))
            160 (Some ''bearer tok-b2''))
       = Inr ?pB"
    using c2 by (simp add: case_prod_beta)
  show ?thesis using p1 p2 c1 c3 c4 by blast
qed


section \<open>Consent grants are scoped to one patient\<close>

lemma find_patient_member:
  "find_patient ps x = Some p \<Longrightarrow> p \<in> set ps"
  by (auto simp: find_patient_def find_Some_iff)

lemma patient_request_state:
  assumes "user_type sess = Some ''employee''" "phone \<noteq> []" "a \<noteq> []"
    and "find_patient (patients st) a = Some pa" "patient_id pa = a"
  shows "snd (api_request_patient_otp env st sess t0 rand phone a) =
     st\<lparr>patient_otp_store := (patient_otp_store st)(phone \<mapsto>
          \<lparr>p_otp = gen_otp rand, p_expires_at = t0 + PATIENT_OTP_TTL_SECONDS env,
           p_attempts = 0, p_patient_id = a\<rparr>)\<rparr>"
proof -
  have "pa \<in> set (patients st)" using assms(4) by (rule find_patient_member)
  with assms(5) have "list_ex (\<lambda>p. patient_id p = a) (patients st)"
    by (auto simp: list_ex_iff)
  with assms(1-3) show ?thesis
    by (simp add: api_request_patient_otp_def Let_def)
qed

lemma gen_otp_plain: "strip (gen_otp rand) = gen_otp rand" "gen_otp rand \<noteq> []"
  by (simp_all add: gen_otp_def strip_str_int str_int_nonempty)

lemma patient_verify_match:
  assumes "user_type sess = Some ''employee''" "phone \<noteq> []" "c \<noteq> []"
    and "patient_otp_store st phone = Some rec" "now \<le> p_expires_at rec" "p_otp rec = strip c"
  shows "api_verify_patient_otp env st sess now phone c =
     (Json [(''ok'', JBool True), (''message'', JStr ''OTP verified''),
            (''access_expires_in'', JInt (PATIENT_ACCESS_SECONDS env))] 200,
      st\<lparr>patient_otp_store := (patient_otp_store st)(phone := None)\<rparr>,
      sess\<lparr>patient_access := Some \<lparr>access_patient_id = p_patient_id rec,
                                    access_expires_at = now + PATIENT_ACCESS_SECONDS env\<rparr>\<rparr>)"
  using assms by (simp add: api_verify_patient_otp_def Let_def)

lemma get_patient_employee:
  assumes "user_type sess = Some ''employee''" "find_patient (patients st) x = Some pat"
  shows "hc_api_get_patient st sess now x =
     (case patient_access sess of
        None \<Rightarrow> (Json [(''error'', JStr ''access_required''),
                         (''message'', JStr ''OTP verification required'')] 401, sess)
      | Some acc \<Rightarrow>
          if now > access_expires_at acc
          then (Json [(''error'', JStr ''access_expired''),
                      (''message'', JStr ''Access expired'')] 401,
                sess\<lparr>patient_access := None\<rparr>)
          else if access_patient_id acc \<noteq> patient_id pat
          then (Json [(''error'', JStr ''access_mismatch''),
                      (''message'', JStr ''OTP was for a different patient'')] 403, sess)
          else (Json [(''patient'', JPatient pat),
                      (''access_expires_at'', JIso (access_expires_at acc))] 200, sess))"
  using assms by (simp add: hc_api_get_patient_def)

text \<open>
  C3. After an employee's consent OTP for patient \<open>a\<close> is verified (within the OTP's
  lifetime), that session holds a grant for exactly \<open>a\<close>: while the grant lives, a request
  that resolves to patient \<open>a\<close> is answered 200 with the record, and a request that resolves
  to any other patient is answered 403 access_mismatch, which is neither the 401
  access_required of a session without grant nor the 401 access_expired of an expired one.
\<close>

theorem consent_grant_scope:
  assumes "user_type sess = Some ''employee''" and "phone \<noteq> []" and "a \<noteq> []"
    and "find_patient (patients st) a = Some pa" and "patient_id pa = a"
    and "find_patient (patients st) b = Some pb" and "patient_id pb \<noteq> a"
    and "t1 \<le> t0 + PATIENT_OTP_TTL_SECONDS env"
    and "t2 \<le> t1 + PATIENT_ACCESS_SECONDS env" and "t1 + PATIENT_ACCESS_SECONDS env < t3"
  shows "(let st1 = snd (api_request_patient_otp env st sess t0 rand phone a);
              (r1, st2, sess1) = api_verify_patient_otp env st1 sess t1 phone (gen_otp rand)
          in r1 = Json [(''ok'', JBool True), (''message'', JStr ''OTP verified''),
                        (''access_expires_in'', JInt (PATIENT_ACCESS_SECONDS env))] 200
             \<and> patient_access sess1 =
                 Some \<lparr>access_patient_id = a, access_expires_at = t1 + PATIENT_ACCESS_SECONDS env\<rparr>
             \<and> fst (hc_api_get_patient st2 sess1 t2 a) =
                 Json [(''patient'', JPatient pa),
                       (''access_expires_at'', JIso (t1 + PATIENT_ACCESS_SECONDS env))] 200
             \<and> fst (hc_api_get_patient st2 sess1 t2 b) =
                 Json [(''error'', JStr ''access_mismatch''),
                       (''message'', JStr ''OTP was for a different patient'')] 403
             \<and> fst (hc_api_get_patient st2 (sess1\<lparr>patient_access := None\<rparr>) t2 b) =
                 Json [(''error'', JStr ''access_required''),
                       (''message'', JStr ''OTP verification required'')] 401
             \<and> fst (hc_api_get_patient st2 sess1 t3 b) =
                 Json [(''error'', JStr ''access_expired''),
                       (''message'', JStr ''Access expired'')] 401)"
proof -
  let ?rec = "\<lparr>p_otp = gen_otp rand, p_expires_at = t0 + PATIENT_OTP_TTL_SECONDS env,
               p_attempts = 0, p_patient_id = a\<rparr>"
  let ?st1 = "st\<lparr>patient_otp_store := (patient_otp_store st)(phone \<mapsto> ?rec)\<rparr>"
  let ?st2 = "?st1\<lparr>patient_otp_store := (patient_otp_store ?st1)(phone := None)\<rparr>"
  let ?acc = "\<lparr>access_patient_id = a, access_expires_at = t1 + PATIENT_ACCESS_SECONDS env\<rparr>"
  let ?sess1 = "sess\<lparr>patient_access := Some ?acc\<rparr>"
  have st1: "snd (api_request_patient_otp env st sess t0 rand phone a) = ?st1"
    by (rule patient_request_state [OF assms(1-5)])
  have v: "api_verify_patient_otp env ?st1 sess t1 phone (gen_otp rand) =
     (Json [(''ok'', JBool True), (''message'', JStr ''OTP verified''),
            (''access_expires_in'', JInt (PATIENT_ACCESS_SECONDS env))] 200, ?st2, ?sess1)"
    using patient_verify_match [OF assms(1,2) gen_otp_plain(2), where st = ?st1 and rec = ?rec
        and now = t1 and rand1 = rand and env = env]
    by (simp add: gen_otp_plain(1) assms(8))
  have e1: "user_type ?sess1 = Some ''employee''" using assms(1) by simp
  have e0: "user_type (?sess1\<lparr>patient_access := None\<rparr>) = Some ''employee''" using assms(1) by simp
  have fa: "find_patient (patients ?st2) a = Some pa" using assms(4) by simp
  have fb: "find_patient (patients ?st2) b = Some pb" using assms(6) by simp
  have ga: "fst (hc_api_get_patient ?st2 ?sess1 t2 a) =
              Json [(''patient'', JPatient pa),
                    (''access_expires_at'', JIso (t1 + PATIENT_ACCESS_SECONDS env))] 200"
    by (subst get_patient_employee [OF e1 fa]) (use assms(5,9) in simp)
  have gb: "fst (hc_api_get_patient ?st2 ?sess1 t2 b) =
              Json [(''error'', JStr ''access_mismatch''),
                    (''message'', JStr ''OTP was for a different patient'')] 403"
    by (subst get_patient_employee [OF e1 fb]) (use assms(7,9) in auto)
  have gn: "fst (hc_api_get_patient ?st2 (?sess1\<lparr>patient_access := None\<rparr>) t2 b) =
              Json [(''error'', JStr ''access_required''),
                    (''message'', JStr ''OTP verification required'')] 401"
    by (subst get_patient_employee [OF e0 fb]) simp
  have ge: "fst (hc_api_get_patient ?st2 ?sess1 t3 b) =
              Json [(''error'', JStr ''access_expired''),
                    (''message'', JStr ''Access expired'')] 401"
    by (subst get_patient_employee [OF e1 fb]) (use assms(10) in simp)
  show ?thesis
    unfolding Let_def st1 v prod.case using ga gb gn ge by simp
qed

lemma find_demo_a:
  "find_patient (patients demo_hc_state) ''PAT0007'' =
     Some \<lparr>id_no = 7, patient_id = ''PAT0007'', other_fields = [(''name'', ''Emily Davis'')]\<rparr>"
  by (simp add: find_patient_def demo_hc_state_def demo_patients_def)

lemma find_demo_b:
  "find_patient (patients demo_hc_state) ''PAT0099'' =
     Some \<lparr>id_no = 99, patient_id = ''PAT0099'', other_fields = [(''name'', ''Daniel Moore'')]\<rparr>"
  by code_simp

theorem consent_grant_scope_witness:
  "user_type employee_session = Some ''employee'' \<and> ''+1-555-0100'' \<noteq> [] \<and> ''PAT0007'' \<noteq> []
   \<and> find_patient (patients demo_hc_state) ''PAT0007'' =
        Some \<lparr>id_no = 7, patient_id = ''PAT0007'', other_fields = [(''name'', ''Emily Davis'')]\<rparr>
   \<and> patient_id \<lparr>id_no = 7, patient_id = ''PAT0007'', other_fields = [(''name'', ''Emily Davis'')]\<rparr>
        = ''PAT0007''
   \<and> find_patient (patients demo_hc_state) ''PAT0099'' =
        Some \<lparr>id_no = 99, patient_id = ''PAT0099'', other_fields = [(''name'', ''Daniel Moore'')]\<rparr>
   \<and> patient_id \<lparr>id_no = 99, patient_id = ''PAT0099'', other_fields = [(''name'', ''Daniel Moore'')]\<rparr>
        \<noteq> ''PAT0007''
   \<and> (10::int) \<le> 0 + PATIENT_OTP_TTL_SECONDS default_hc_env
   \<and> (100::int) \<le> 10 + PATIENT_ACCESS_SECONDS default_hc_env
   \<and> 10 + PATIENT_ACCESS_SECONDS default_hc_env < (200::int)
   \<and> (let st1 = snd (api_request_patient_otp default_hc_env demo_hc_state employee_session 0
                       483920 ''+1-555-0100'' ''PAT0007'');
           (r1, st2, sess1) = api_verify_patient_otp default_hc_env st1 employee_session 10
                                ''+1-555-0100'' (gen_otp 483920)
       in fst (hc_api_get_patient st2 sess1 100 ''PAT0007'') =
            Json [(''patient'', JPatient \<lparr>id_no = 7, patient_id = ''PAT0007'',
                                         other_fields = [(''name'', ''Emily Davis'')]\<rparr>),
                  (''access_expires_at'', JIso 130)] 200
          \<and> fst (hc_api_get_patient st2 sess1 100 ''PAT0099'') =
              Json [(''error'', JStr ''access_mismatch''),
                    (''message'', JStr ''OTP was for a different patient'')] 403)"
proof -
  have h1: "user_type employee_session = Some ''employee''" by (simp add: employee_session_def)
  have h2: "''+1-555-0100'' \<noteq> []" by simp
  have h3: "''PAT0007'' \<noteq> []" by simp
  have h5: "patient_id \<lparr>id_no = 7, patient_id = ''PAT0007'', other_fields = [(''name'', ''Emily Davis'')]\<rparr>
        = ''PAT0007''" by simp
  have h7: "patient_id \<lparr>id_no = 99, patient_id = ''PAT0099'', other_fields = [(''name'', ''Daniel Moore'')]\<rparr>
        \<noteq> ''PAT0007''" by simp
  have h8: "(10::int) \<le> 0 + PATIENT_OTP_TTL_SECONDS default_hc_env" by (simp add: default_hc_env_def)
  have h9: "(100::int) \<le> 10 + PATIENT_ACCESS_SECONDS default_hc_env" by (simp add: default_hc_env_def)
  have h10: "10 + PATIENT_ACCESS_SECONDS default_hc_env < (200::int)" by (simp add: default_hc_env_def)
  note r = consent_grant_scope [OF h1 h2 h3 find_demo_a h5 find_demo_b h7 h8 h9 h10, where rand = 483920]
  have acc: "PATIENT_ACCESS_SECONDS default_hc_env = 120" by (simp add: default_hc_env_def)
  have c: "(let st1 = snd (api_request_patient_otp default_hc_env demo_hc_state employee_session 0
                       483920 ''+1-555-0100'' ''PAT0007'');
           (r1, st2, sess1) = api_verify_patient_otp default_hc_env st1 employee_session 10
                                ''+1-555-0100'' (gen_otp 483920)
       in fst (hc_api_get_patient st2 sess1 100 ''PAT0007'') =
            Json [(''patient'', JPatient \<lparr>id_no = 7, patient_id = ''PAT0007'',
                                         other_fields = [(''name'', ''Emily Davis'')]\<rparr>),
                  (''access_expires_at'', JIso 130)] 200
          \<and> fst (hc_api_get_patient st2 sess1 100 ''PAT0099'') =
              Json [(''error'', JStr ''access_mismatch''),
                    (''message'', JStr ''OTP was for a different patient'')] 403)"
    using r by (simp add: Let_def case_prod_beta acc)
  show ?thesis using h1 h2 h3 find_demo_a h5 find_demo_b h7 h8 h9 h10 c by blast
qed


section \<open>The attempt ceiling of the employee login\<close>


lemma hc_verify_too_many:
  assumes "i \<noteq> []" "g \<noteq> []" "otp_store st i = Some rec"
    and "MAX_OTP_ATTEMPTS env < attempts rec + 1"
  shows "hc_api_verify_otp env st sess t i g =
     (Json [(''ok'', JBool False), (''error'', JStr ''too many attempts'')] 429,
      st\<lparr>otp_store := (otp_store st)(i := None)\<rparr>, sess)"
  using assms by (simp add: hc_api_verify_otp_def Let_def)





lemma digit_chars:
  "digit_char 0 = CHR ''0''" "digit_char 1 = CHR ''1''" "digit_char 2 = CHR ''2''"
  "digit_char 3 = CHR ''3''" "digit_char 4 = CHR ''4''" "digit_char 5 = CHR ''5''"
  "digit_char 6 = CHR ''6''" "digit_char 7 = CHR ''7''" "digit_char 8 = CHR ''8''"
  "digit_char 9 = CHR ''9''"
  by code_simp+

lemma str_int_483920: "str_int 483920 = ''483920''"
  by (simp add: str_int_def str_nat.simps digit_chars)


lemma emp001_user:
  "USERS_employee demo_hc_state ''emp001'' =
     Some (EmployeeData ''emp123'' ''Dr. John Smith'' ''Doctor'' 1 [])"
  by (simp add: demo_hc_state_def USERS_employee_initial_def)

lemma emp001_nonempty: "''emp001'' \<noteq> []"
  by simp

lemma demo_pending_record:
  "otp_store demo_pending_state ''emp001'' =
     Some \<lparr>otp = ''483920'', otp_expires_at = 300, attempts = 0\<rparr>"
  unfolding demo_pending_state_def hc_request_state [OF emp001_nonempty emp001_user]
  by (simp add: generate_otp_hc_def str_int_483920 default_hc_env_def)





lemma strip_483920: "strip ''483920'' = ''483920''"
  by (simp add: strip_def py_isspace_def)




section \<open>Verification after the expiry\<close>

lemma app_verify_expired:
  assumes "strip d \<noteq> []" "strip c \<noteq> []"
    and "get_otp_record st (strip d) = Some rec" "expires_at rec < now"
  shows "app_api_verify_otp env st now j d c =
     (Json [(''error'', JStr ''otp expired'')] 400, remove_otp st (strip d))"
  using assms by (simp add: app_api_verify_otp_def Let_def)

lemma hc_verify_expired:
  assumes "i \<noteq> []" "c \<noteq> []" "otp_store st i = Some rec"
    and "attempts rec + 1 \<le> MAX_OTP_ATTEMPTS env" "otp_expires_at rec < now"
  shows "hc_api_verify_otp env st sess now i c =
     (Json [(''ok'', JBool False), (''error'', JStr ''otp expired'')] 400,
      st\<lparr>otp_store := (otp_store st)(i := None)\<rparr>, sess)"
  using assms by (simp add: hc_api_verify_otp_def Let_def)

lemma demo_app_pending_record:
  "get_otp_record demo_app_pending_state (strip ''dr1'') =
     Some \<lparr>h = hash_otp demo_app_env (generate_otp demo_digits (OTP_LENGTH demo_app_env)) ''5a17'',
           salt = ''5a17'', expires_at = 0 + OTP_VALIDITY_SECONDS demo_app_env\<rparr>"
proof -
  have s: "strip ''dr1'' \<noteq> []" by (simp add: strip_dr1)
  show ?thesis
    unfolding demo_app_pending_state_def app_request_state [OF s] by (rule get_after_store)
qed

lemma demo_app_absent: "get_otp_record empty_app_state (strip ''dr1'') = None"
  by (simp add: get_otp_record_def empty_app_state_def)

text \<open>
  C5, as amended. A verify strictly after the expiry of a stored record never succeeds and
  deletes the record, but its answer is not the one of an absent record: src/api/app.py
  answers 400 otp expired where an absent record gets 400 no valid otp found for this
  identifier or it expired, and the employee login of src/healthcare_app.py answers 400 otp
  expired (429 too many attempts once the attempt ceiling is passed) where an absent record
  gets 400 no OTP requested for this identifier. Any later verify gets the absent answer.
\<close>

theorem verify_after_expiry:
  assumes "strip d \<noteq> []" and "strip c \<noteq> []"
    and "get_otp_record st (strip d) = Some rec" and "expires_at rec < now"
    and "i \<noteq> []" and "g \<noteq> []" and "otp_store hs i = Some hrec" and "otp_expires_at hrec < hnow"
  shows "(let (r1, st1) = app_api_verify_otp env st now j d c;
              (r2, st2) = app_api_verify_otp env st1 now' j' d c
          in r1 = Json [(''error'', JStr ''otp expired'')] 400
             \<and> get_otp_record st1 (strip d) = None
             \<and> r2 = Json [(''error'', JStr ''no valid otp found for this identifier or it expired'')] 400
             \<and> r1 \<noteq> r2)
         \<and>
         (let (r1, hs1, sess1) = hc_api_verify_otp henv hs sess hnow i g;
              (r2, hs2, sess2) = hc_api_verify_otp henv hs1 sess1 hnow' i g
          in (if attempts hrec + 1 \<le> MAX_OTP_ATTEMPTS henv
              then r1 = Json [(''ok'', JBool False), (''error'', JStr ''otp expired'')] 400
              else r1 = Json [(''ok'', JBool False), (''error'', JStr ''too many attempts'')] 429)
             \<and> otp_store hs1 i = None \<and> sess1 = sess
             \<and> r2 = Json [(''ok'', JBool False), (''error'', JStr ''no OTP requested for this identifier'')] 400
             \<and> r1 \<noteq> r2)"
proof (rule conjI)
  have v1: "app_api_verify_otp env st now j d c =
     (Json [(''error'', JStr ''otp expired'')] 400, remove_otp st (strip d))"
    by (rule app_verify_expired [OF assms(1-4)])
  have v2: "app_api_verify_otp env (remove_otp st (strip d)) now' j' d c =
     (Json [(''error'', JStr ''no valid otp found for this identifier or it expired'')] 400,
      remove_otp st (strip d))"
    by (rule app_verify_absent [OF assms(1,2) get_after_remove])
  show "(let (r1, st1) = app_api_verify_otp env st now j d c;
              (r2, st2) = app_api_verify_otp env st1 now' j' d c
          in r1 = Json [(''error'', JStr ''otp expired'')] 400
             \<and> get_otp_record st1 (strip d) = None
             \<and> r2 = Json [(''error'', JStr ''no valid otp found for this identifier or it expired'')] 400
             \<and> r1 \<noteq> r2)"
    unfolding v1 prod.case Let_def v2 by (simp add: get_after_remove)
next
  let ?hs1 = "hs\<lparr>otp_store := (otp_store hs)(i := None)\<rparr>"
  let ?r1 = "if attempts hrec + 1 \<le> MAX_OTP_ATTEMPTS henv
             then Json [(''ok'', JBool False), (''error'', JStr ''otp expired'')] 400
             else Json [(''ok'', JBool False), (''error'', JStr ''too many attempts'')] 429"
  have v1: "hc_api_verify_otp henv hs sess hnow i g = (?r1, ?hs1, sess)"
  proof (cases "attempts hrec + 1 \<le> MAX_OTP_ATTEMPTS henv")
    case True
    then show ?thesis
      using hc_verify_expired [OF assms(5-7) True assms(8), of sess] by simp
  next
    case False
    then have "MAX_OTP_ATTEMPTS henv < attempts hrec + 1" by simp
    from hc_verify_too_many [OF assms(5-7) this, of sess hnow] False show ?thesis by simp
  qed
  have v2: "hc_api_verify_otp henv ?hs1 sess hnow' i g =
     (Json [(''ok'', JBool False), (''error'', JStr ''no OTP requested for this identifier'')] 400,
      ?hs1, sess)"
    by (rule hc_verify_absent [OF assms(5,6)]) simp
  show "(let (r1, hs1, sess1) = hc_api_verify_otp henv hs sess hnow i g;
              (r2, hs2, sess2) = hc_api_verify_otp henv hs1 sess1 hnow' i g
          in (if attempts hrec + 1 \<le> MAX_OTP_ATTEMPTS henv
              then r1 = Json [(''ok'', JBool False), (''error'', JStr ''otp expired'')] 400
              else r1 = Json [(''ok'', JBool False), (''error'', JStr ''too many attempts'')] 429)
             \<and> otp_store hs1 i = None \<and> sess1 = sess
             \<and> r2 = Json [(''ok'', JBool False), (''error'', JStr ''no OTP requested for this identifier'')] 400
             \<and> r1 \<noteq> r2)"
    unfolding v1 prod.case Let_def v2 by simp
qed

theorem verify_after_expiry_witness:
  "strip ''dr1'' \<noteq> [] \<and> strip ''483920'' \<noteq> []
   \<and> get_otp_record demo_app_pending_state (strip ''dr1'') =
        Some \<lparr>h = hash_otp demo_app_env (generate_otp demo_digits (OTP_LENGTH demo_app_env)) ''5a17'',
              salt = ''5a17'', expires_at = 0 + OTP_VALIDITY_SECONDS demo_app_env\<rparr>
   \<and> expires_at \<lparr>h = hash_otp demo_app_env (generate_otp demo_digits (OTP_LENGTH demo_app_env)) ''5a17'',
                  salt = ''5a17'', expires_at = 0 + OTP_VALIDITY_SECONDS demo_app_env\<rparr> < 121
   \<and> ''emp001'' \<noteq> [] \<and> ''483920'' \<noteq> []
   \<and> otp_store demo_pending_state ''emp001'' = Some \<lparr>otp = ''483920'', otp_expires_at = 300, attempts = 0\<rparr>
   \<and> otp_expires_at \<lparr>otp = ''483920'', otp_expires_at = 300, attempts = 0\<rparr> < 301
   \<and> fst (app_api_verify_otp demo_app_env demo_app_pending_state 121 ''j1'' ''dr1'' ''483920'')
       = Json [(''error'', JStr ''otp expired'')] 400
   \<and> fst (hc_api_verify_otp default_hc_env demo_pending_state no_session 301 ''emp001'' ''483920'')
       = Json [(''ok'', JBool False), (''error'', JStr ''otp expired'')] 400"
proof -
  have h1: "strip ''dr1'' \<noteq> []" by (simp add: strip_dr1)
  have h2: "strip ''483920'' \<noteq> []" by (simp add: strip_483920)
  have h4: "expires_at \<lparr>h = hash_otp demo_app_env (generate_otp demo_digits (OTP_LENGTH demo_app_env)) ''5a17'',
                  salt = ''5a17'', expires_at = 0 + OTP_VALIDITY_SECONDS demo_app_env\<rparr> < 121"
    by (simp add: demo_app_env_def)
  have h5: "''emp001'' \<noteq> []" by simp
  have h6: "''483920'' \<noteq> []" by simp
  have h8: "otp_expires_at \<lparr>otp = ''483920'', otp_expires_at = 300, attempts = 0\<rparr> < 301" by simp
  note r = verify_after_expiry [OF h1 h2 demo_app_pending_record h4 h5 h6 demo_pending_record h8,
      where env = demo_app_env and j = "''j1''" and now' = 122 and j' = "''j2''"
        and henv = default_hc_env and sess = no_session and hnow' = 302]
  have m: "MAX_OTP_ATTEMPTS default_hc_env = 5" by (simp add: default_hc_env_def)
  have c1: "fst (app_api_verify_otp demo_app_env demo_app_pending_state 121 ''j1'' ''dr1'' ''483920'')
       = Json [(''error'', JStr ''otp expired'')] 400"
    using r [THEN conjunct1] by (simp add: case_prod_beta Let_def)
  have c2: "fst (hc_api_verify_otp default_hc_env demo_pending_state no_session 301 ''emp001'' ''483920'')
       = Json [(''ok'', JBool False), (''error'', JStr ''otp expired'')] 400"
    using r [THEN conjunct2] by (simp add: case_prod_beta Let_def m)
  show ?thesis
    by (rule conjI h1 h2 demo_app_pending_record h4 h5 h6 demo_pending_record h8 c1 c2)+
qed

text \<open>
  The claim as written fails: in src/api/app.py the answer to a verify after the expiry
  differs from the answer for an identifier without record.
\<close>

theorem verify_after_expiry_counterexample:
  "fst (app_api_verify_otp demo_app_env demo_app_pending_state 121 ''j1'' ''dr1'' ''483920'')
     = Json [(''error'', JStr ''otp expired'')] 400
   \<and> fst (app_api_verify_otp demo_app_env empty_app_state 121 ''j1'' ''dr1'' ''483920'')
     = Json [(''error'', JStr ''no valid otp found for this identifier or it expired'')] 400
   \<and> fst (app_api_verify_otp demo_app_env demo_app_pending_state 121 ''j1'' ''dr1'' ''483920'')
     \<noteq> fst (app_api_verify_otp demo_app_env empty_app_state 121 ''j1'' ''dr1'' ''483920'')"
proof -
  have h1: "strip ''dr1'' \<noteq> []" by (simp add: strip_dr1)
  have h2: "strip ''483920'' \<noteq> []" by (simp add: strip_483920)
  have h4: "expires_at \<lparr>h = hash_otp demo_app_env (generate_otp demo_digits (OTP_LENGTH demo_app_env)) ''5a17'',
                  salt = ''5a17'', expires_at = 0 + OTP_VALIDITY_SECONDS demo_app_env\<rparr> < 121"
    by (simp add: demo_app_env_def)
  note a = app_verify_expired [OF h1 h2 demo_app_pending_record h4, where env = demo_app_env and j = "''j1''"]
  note b = app_verify_absent [OF h1 h2 demo_app_absent, where env = demo_app_env and j = "''j1''" and now = 121]
  show ?thesis unfolding a b by simp
qed


section \<open>What a request stores and what it answers\<close>

lemma app_request_response:
  "fst (app_api_request_otp env st now rd sl d) =
     (if strip d = [] then Json [(''error'', JStr ''doctor_id required'')] 400
      else Json [(''ok'', JBool True),
                 (''message'', JStr ''OTP generated and sent (demo)''),
                 (''otp_validity_seconds'', JInt (OTP_VALIDITY_SECONDS env))] 200)"
  by (simp add: app_api_request_otp_def Let_def)

lemma app_request_state_any:
  "snd (app_api_request_otp env st now rd sl d) =
     (if strip d = [] then st
      else store_otp env st now sl (strip d) (generate_otp rd (OTP_LENGTH env))
             (OTP_VALIDITY_SECONDS env))"
  by (simp add: app_api_request_otp_def Let_def)

lemma hc_request_response:
  "fst (hc_api_request_otp env st now rand i) =
     (if i = [] then Json [(''ok'', JBool False), (''error'', JStr ''identifier required'')] 400
      else if USERS_employee st i = None
      then Json [(''ok'', JBool False), (''error'', JStr ''unknown employee identifier'')] 404
      else Json [(''ok'', JBool True), (''message'', JStr ''OTP generated (dev-log).'')] 200)"
  by (simp add: hc_api_request_otp_def request_otp_for_def Let_def)

text \<open>
  C6, as amended. In src/api/app.py a request stores, under the identifier, only the HMAC of
  the secret under the salt drawn for this record, that salt and the expiry: two secrets
  with the same HMAC leave the same state. In both servers the answer to a request does not
  depend on the secret drawn. In src/healthcare_app.py the stored record holds the secret
  itself.
\<close>

theorem request_stores_and_answers:
  "(strip d \<noteq> [] \<longrightarrow>
      get_otp_record (snd (app_api_request_otp env st now rd sl d)) (strip d) =
        Some \<lparr>h = hmac_sha256_hex env sl (generate_otp rd (OTP_LENGTH env)), salt = sl,
              expires_at = now + OTP_VALIDITY_SECONDS env\<rparr>)
   \<and> (hmac_sha256_hex env sl (generate_otp rd (OTP_LENGTH env)) =
        hmac_sha256_hex env sl (generate_otp rd' (OTP_LENGTH env)) \<longrightarrow>
        snd (app_api_request_otp env st now rd sl d) = snd (app_api_request_otp env st now rd' sl d))
   \<and> fst (app_api_request_otp env st now rd sl d) = fst (app_api_request_otp env st now rd' sl d)
   \<and> fst (hc_api_request_otp henv hs hnow rand i) = fst (hc_api_request_otp henv hs hnow rand' i)
   \<and> (i \<noteq> [] \<and> USERS_employee hs i = Some ud \<longrightarrow>
        map_option otp (otp_store (snd (hc_api_request_otp henv hs hnow rand i)) i) =
          Some (generate_otp_hc rand))"
proof (intro conjI impI)
  assume s: "strip d \<noteq> []"
  show "get_otp_record (snd (app_api_request_otp env st now rd sl d)) (strip d) =
        Some \<lparr>h = hmac_sha256_hex env sl (generate_otp rd (OTP_LENGTH env)), salt = sl,
              expires_at = now + OTP_VALIDITY_SECONDS env\<rparr>"
    unfolding app_request_state [OF s] get_after_store by (simp add: hash_otp_def)
next
  assume "hmac_sha256_hex env sl (generate_otp rd (OTP_LENGTH env)) =
          hmac_sha256_hex env sl (generate_otp rd' (OTP_LENGTH env))"
  then show "snd (app_api_request_otp env st now rd sl d) = snd (app_api_request_otp env st now rd' sl d)"
    unfolding app_request_state_any by (simp add: store_otp_def hash_otp_def Let_def)
next
  show "fst (app_api_request_otp env st now rd sl d) = fst (app_api_request_otp env st now rd' sl d)"
    unfolding app_request_response by (rule refl)
next
  show "fst (hc_api_request_otp henv hs hnow rand i) = fst (hc_api_request_otp henv hs hnow rand' i)"
    unfolding hc_request_response by (rule refl)
next
  assume u: "i \<noteq> [] \<and> USERS_employee hs i = Some ud"
  show "map_option otp (otp_store (snd (hc_api_request_otp henv hs hnow rand i)) i) =
          Some (generate_otp_hc rand)"
    unfolding hc_request_state [OF u [THEN conjunct1] u [THEN conjunct2]] by simp
qed

theorem request_stores_and_answers_witness:
  "strip ''dr1'' \<noteq> []
   \<and> hmac_sha256_hex demo_app_env ''5a17'' (generate_otp demo_digits (OTP_LENGTH demo_app_env)) =
       hmac_sha256_hex demo_app_env ''5a17'' (generate_otp demo_digits (OTP_LENGTH demo_app_env))
   \<and> (''emp001'' \<noteq> []
       \<and> USERS_employee demo_hc_state ''emp001'' =
            Some (EmployeeData ''emp123'' ''Dr. John Smith'' ''Doctor'' 1 []))
   \<and> get_otp_record demo_app_pending_state (strip ''dr1'') =
        Some \<lparr>h = hmac_sha256_hex demo_app_env ''5a17'' (generate_otp demo_digits (OTP_LENGTH demo_app_env)),
              salt = ''5a17'', expires_at = 0 + OTP_VALIDITY_SECONDS demo_app_env\<rparr>
   \<and> map_option otp (otp_store demo_pending_state ''emp001'') = Some (generate_otp_hc 483920)"
proof -
  have h1: "strip ''dr1'' \<noteq> []" by (simp add: strip_dr1)
  have h2: "hmac_sha256_hex demo_app_env ''5a17'' (generate_otp demo_digits (OTP_LENGTH demo_app_env)) =
       hmac_sha256_hex demo_app_env ''5a17'' (generate_otp demo_digits (OTP_LENGTH demo_app_env))"
    by (rule refl)
  have h3: "''emp001'' \<noteq> []
       \<and> USERS_employee demo_hc_state ''emp001'' =
            Some (EmployeeData ''emp123'' ''Dr. John Smith'' ''Doctor'' 1 [])"
    using emp001_user by simp
  note r = request_stores_and_answers [where env = demo_app_env and st = empty_app_state and now = 0
      and rd = demo_digits and rd' = demo_digits and sl = "''5a17''" and d = "''dr1''"
      and henv = default_hc_env and hs = demo_hc_state and hnow = 0 and rand = 483920
      and rand' = 483920 and i = "''emp001''"
      and ud = "EmployeeData ''emp123'' ''Dr. John Smith'' ''Doctor'' 1 []"]
  have c1: "get_otp_record demo_app_pending_state (strip ''dr1'') =
        Some \<lparr>h = hmac_sha256_hex demo_app_env ''5a17'' (generate_otp demo_digits (OTP_LENGTH demo_app_env)),
              salt = ''5a17'', expires_at = 0 + OTP_VALIDITY_SECONDS demo_app_env\<rparr>"
    unfolding demo_app_pending_state_def by (rule r [THEN conjunct1, THEN mp, OF h1])
  have c2: "map_option otp (otp_store demo_pending_state ''emp001'') = Some (generate_otp_hc 483920)"
    unfolding demo_pending_state_def
    by (rule r [THEN conjunct2, THEN conjunct2, THEN conjunct2, THEN conjunct2, THEN mp, OF h3])
  show ?thesis by (rule conjI h1 h2 h3 c1 c2)+
qed

text \<open>
  The claim as written fails: the record that the employee login of src/healthcare_app.py
  stores for emp001 holds the secret 483920 itself.
\<close>

theorem request_stores_and_answers_counterexample:
  "fst (request_otp_for default_hc_env demo_hc_state 0 483920 ''emp001'') = ''483920''
   \<and> map_option otp (otp_store demo_pending_state ''emp001'') = Some ''483920''"
  using demo_pending_record
  by (simp add: request_otp_for_def generate_otp_hc_def str_int_483920 Let_def)

section \<open>Where the expiry of a record is checked\<close>

lemma cleanup_lookup:
  "otp_store (otp_cleanup_pass hs t) i =
     (case otp_store hs i of None \<Rightarrow> None
      | Some v \<Rightarrow> if otp_expires_at v < t then None else Some v)"
  by (simp add: otp_cleanup_pass_def)

lemma hc_verify_expired_any:
  assumes "i \<noteq> []" "g \<noteq> []" "otp_store hs i = Some hrec" "otp_expires_at hrec < hnow"
  shows "fst (hc_api_verify_otp henv hs sess hnow i g) =
     (if attempts hrec + 1 \<le> MAX_OTP_ATTEMPTS henv
      then Json [(''ok'', JBool False), (''error'', JStr ''otp expired'')] 400
      else Json [(''ok'', JBool False), (''error'', JStr ''too many attempts'')] 429)"
  using assms by (simp add: hc_api_verify_otp_def Let_def)

text \<open>
  C7, as amended. The read of the OTP store, \<open>get_otp_record\<close>, returns whatever record is
  stored, expired or not; it is its caller \<open>api_verify_otp\<close> that rejects a record strictly
  after its expiry and removes it. The read of the blacklist, \<open>is_blacklisted\<close>, checks the
  expiry itself: an entry whose time has come counts as absent and is removed. In
  src/healthcare_app.py, too, the verify endpoint rejects an expired record whether or not
  the cleanup pass has removed it.
\<close>

theorem expiry_checked_on_verify:
  "(app_otp_store st (otp_key k) = Some rec \<longrightarrow> get_otp_record st k = Some rec)
   \<and> (strip d \<noteq> [] \<and> strip c \<noteq> [] \<and> get_otp_record st (strip d) = Some rec' \<and> expires_at rec' < now \<longrightarrow>
        fst (app_api_verify_otp env st now j d c) = Json [(''error'', JStr ''otp expired'')] 400
        \<and> get_otp_record (snd (app_api_verify_otp env st now j d c)) (strip d) = None)
   \<and> (session_blacklist st jt = Some e \<and> e \<le> now \<longrightarrow>
        fst (is_blacklisted st now jt) = False
        \<and> (e \<noteq> 0 \<longrightarrow> session_blacklist (snd (is_blacklisted st now jt)) jt = None))
   \<and> (i \<noteq> [] \<and> g \<noteq> [] \<and> otp_store hs i = Some hrec \<and> otp_expires_at hrec < hnow \<longrightarrow>
        fst (hc_api_verify_otp henv hs sess hnow i g) =
          (if attempts hrec + 1 \<le> MAX_OTP_ATTEMPTS henv
           then Json [(''ok'', JBool False), (''error'', JStr ''otp expired'')] 400
           else Json [(''ok'', JBool False), (''error'', JStr ''too many attempts'')] 429)
        \<and> fst (hc_api_verify_otp henv (otp_cleanup_pass hs t) sess hnow i g) =
          (if otp_expires_at hrec < t
           then Json [(''ok'', JBool False), (''error'', JStr ''no OTP requested for this identifier'')] 400
           else if attempts hrec + 1 \<le> MAX_OTP_ATTEMPTS henv
           then Json [(''ok'', JBool False), (''error'', JStr ''otp expired'')] 400
           else Json [(''ok'', JBool False), (''error'', JStr ''too many attempts'')] 429))"
proof (intro conjI impI)
  assume "app_otp_store st (otp_key k) = Some rec"
  then show "get_otp_record st k = Some rec" by (simp add: get_otp_record_def)
next
  assume a: "strip d \<noteq> [] \<and> strip c \<noteq> [] \<and> get_otp_record st (strip d) = Some rec' \<and> expires_at rec' < now"
  then have a': "strip d \<noteq> []" "strip c \<noteq> []" "get_otp_record st (strip d) = Some rec'"
      "expires_at rec' < now"
    by simp_all
  have v: "app_api_verify_otp env st now j d c =
     (Json [(''error'', JStr ''otp expired'')] 400, remove_otp st (strip d))"
    by (rule app_verify_expired [OF a'])
  show "fst (app_api_verify_otp env st now j d c) = Json [(''error'', JStr ''otp expired'')] 400"
    unfolding v by simp
  show "get_otp_record (snd (app_api_verify_otp env st now j d c)) (strip d) = None"
    unfolding v by (simp add: get_after_remove)
next
  assume b: "session_blacklist st jt = Some e \<and> e \<le> now"
  then show "fst (is_blacklisted st now jt) = False" by (simp add: is_blacklisted_def)
  assume "e \<noteq> 0"
  with b show "session_blacklist (snd (is_blacklisted st now jt)) jt = None"
    by (simp add: is_blacklisted_def)
next
  assume c: "i \<noteq> [] \<and> g \<noteq> [] \<and> otp_store hs i = Some hrec \<and> otp_expires_at hrec < hnow"
  then have c': "i \<noteq> []" "g \<noteq> []" "otp_store hs i = Some hrec" "otp_expires_at hrec < hnow"
    by simp_all
  show "fst (hc_api_verify_otp henv hs sess hnow i g) =
          (if attempts hrec + 1 \<le> MAX_OTP_ATTEMPTS henv
           then Json [(''ok'', JBool False), (''error'', JStr ''otp expired'')] 400
           else Json [(''ok'', JBool False), (''error'', JStr ''too many attempts'')] 429)"
    by (rule hc_verify_expired_any [OF c'])
  show "fst (hc_api_verify_otp henv (otp_cleanup_pass hs t) sess hnow i g) =
          (if otp_expires_at hrec < t
           then Json [(''ok'', JBool False), (''error'', JStr ''no OTP requested for this identifier'')] 400
           else if attempts hrec + 1 \<le> MAX_OTP_ATTEMPTS henv
           then Json [(''ok'', JBool False), (''error'', JStr ''otp expired'')] 400
           else Json [(''ok'', JBool False), (''error'', JStr ''too many attempts'')] 429)"
  proof (cases "otp_expires_at hrec < t")
    case True
    then have n: "otp_store (otp_cleanup_pass hs t) i = None"
      using c'(3) by (simp add: cleanup_lookup)
    show ?thesis
      unfolding hc_verify_absent [OF c'(1,2) n] using True by simp
  next
    case False
    then have s: "otp_store (otp_cleanup_pass hs t) i = Some hrec"
      using c'(3) by (simp add: cleanup_lookup)
    show ?thesis
      unfolding hc_verify_expired_any [OF c'(1,2) s c'(4)] using False by simp
  qed
qed


lemma demo_app_stored:
  "app_otp_store demo_app_pending_state (otp_key (strip ''dr1'')) =
     Some \<lparr>h = hash_otp demo_app_env (generate_otp demo_digits (OTP_LENGTH demo_app_env)) ''5a17'',
           salt = ''5a17'', expires_at = 0 + OTP_VALIDITY_SECONDS demo_app_env\<rparr>"
  using demo_app_pending_record by (simp add: get_otp_record_def)

theorem expiry_checked_on_verify_witness:
  "app_otp_store demo_app_pending_state (otp_key (strip ''dr1'')) =
     Some \<lparr>h = hash_otp demo_app_env (generate_otp demo_digits (OTP_LENGTH demo_app_env)) ''5a17'',
           salt = ''5a17'', expires_at = 0 + OTP_VALIDITY_SECONDS demo_app_env\<rparr>
   \<and> (strip ''dr1'' \<noteq> [] \<and> strip ''483920'' \<noteq> []
       \<and> get_otp_record demo_app_pending_state (strip ''dr1'') =
            Some \<lparr>h = hash_otp demo_app_env (generate_otp demo_digits (OTP_LENGTH demo_app_env)) ''5a17'',
                  salt = ''5a17'', expires_at = 0 + OTP_VALIDITY_SECONDS demo_app_env\<rparr>
       \<and> expires_at \<lparr>h = hash_otp demo_app_env (generate_otp demo_digits (OTP_LENGTH demo_app_env)) ''5a17'',
                      salt = ''5a17'', expires_at = 0 + OTP_VALIDITY_SECONDS demo_app_env\<rparr> < 121)
   \<and> (session_blacklist (blacklist_session empty_app_state ''a1'' 220) ''a1'' = Some 220 \<and> (220::int) \<le> 220)
   \<and> (220::int) \<noteq> 0
   \<and> (''emp001'' \<noteq> [] \<and> ''483920'' \<noteq> []
       \<and> otp_store demo_pending_state ''emp001'' = Some \<lparr>otp = ''483920'', otp_expires_at = 300, attempts = 0\<rparr>
       \<and> otp_expires_at \<lparr>otp = ''483920'', otp_expires_at = 300, attempts = 0\<rparr> < 400)
   \<and> fst (app_api_verify_otp demo_app_env demo_app_pending_state 121 ''j1'' ''dr1'' ''483920'')
       = Json [(''error'', JStr ''otp expired'')] 400
   \<and> session_blacklist (snd (is_blacklisted (blacklist_session empty_app_state ''a1'' 220) 220 ''a1'')) ''a1''
       = None
   \<and> fst (hc_api_verify_otp default_hc_env demo_pending_state no_session 400 ''emp001'' ''483920'')
       = Json [(''ok'', JBool False), (''error'', JStr ''otp expired'')] 400
   \<and> fst (hc_api_verify_otp default_hc_env (otp_cleanup_pass demo_pending_state 360) no_session 400
            ''emp001'' ''483920'')
       = Json [(''ok'', JBool False), (''error'', JStr ''no OTP requested for this identifier'')] 400"
proof -
  let ?rec = "\<lparr>h = hash_otp demo_app_env (generate_otp demo_digits (OTP_LENGTH demo_app_env)) ''5a17'',
               salt = ''5a17'', expires_at = 0 + OTP_VALIDITY_SECONDS demo_app_env\<rparr>"
  let ?hrec = "\<lparr>otp = ''483920'', otp_expires_at = 300, attempts = 0\<rparr>"
  have h1: "strip ''dr1'' \<noteq> []" by (simp add: strip_dr1)
  have h2: "strip ''483920'' \<noteq> []" by (simp add: strip_483920)
  have h4: "expires_at ?rec < 121" by (simp add: demo_app_env_def)
  have p2: "strip ''dr1'' \<noteq> [] \<and> strip ''483920'' \<noteq> []
       \<and> get_otp_record demo_app_pending_state (strip ''dr1'') = Some ?rec \<and> expires_at ?rec < 121"
    using h1 h2 demo_app_pending_record h4 by blast
  have p3: "session_blacklist (blacklist_session empty_app_state ''a1'' 220) ''a1'' = Some 220
            \<and> (220::int) \<le> 220"
    by (simp add: blacklist_session_def)
  have nz: "(220::int) \<noteq> 0" by simp
  have p4: "''emp001'' \<noteq> [] \<and> ''483920'' \<noteq> []
       \<and> otp_store demo_pending_state ''emp001'' = Some ?hrec \<and> otp_expires_at ?hrec < 400"
    using demo_pending_record by simp
  note r = expiry_checked_on_verify [where st = demo_app_pending_state and k = "strip ''dr1''"
      and rec = ?rec and d = "''dr1''" and c = "''483920''" and rec' = ?rec and now = 121
      and env = demo_app_env and j = "''j1''" and hs = demo_pending_state and i = "''emp001''"
      and g = "''483920''" and hrec = ?hrec and hnow = 400 and henv = default_hc_env
      and sess = no_session and t = 360]
  note q = expiry_checked_on_verify [where st = "blacklist_session empty_app_state ''a1'' 220"
      and jt = "''a1''" and e = 220 and now = 220]
  have m: "MAX_OTP_ATTEMPTS default_hc_env = 5" by (simp add: default_hc_env_def)
  have c1: "fst (app_api_verify_otp demo_app_env demo_app_pending_state 121 ''j1'' ''dr1'' ''483920'')
       = Json [(''error'', JStr ''otp expired'')] 400"
    using r [THEN conjunct2, THEN conjunct1, THEN mp, OF p2] by (rule conjunct1)
  have c2: "session_blacklist (snd (is_blacklisted (blacklist_session empty_app_state ''a1'' 220) 220 ''a1'')) ''a1''
       = None"
    using q [THEN conjunct2, THEN conjunct2, THEN conjunct1, THEN mp, OF p3] nz by blast
  note hc = r [THEN conjunct2, THEN conjunct2, THEN conjunct2, THEN mp, OF p4]
  have c3: "fst (hc_api_verify_otp default_hc_env demo_pending_state no_session 400 ''emp001'' ''483920'')
       = Json [(''ok'', JBool False), (''error'', JStr ''otp expired'')] 400"
    using hc [THEN conjunct1] by (simp add: m)
  have c4: "fst (hc_api_verify_otp default_hc_env (otp_cleanup_pass demo_pending_state 360) no_session 400
            ''emp001'' ''483920'')
       = Json [(''ok'', JBool False), (''error'', JStr ''no OTP requested for this identifier'')] 400"
    using hc [THEN conjunct2] by simp
  show ?thesis
    by (rule conjI demo_app_stored p2 p3 nz p4 c1 c2 c3 c4)+
qed

text \<open>
  The claim as written fails: the record stored for dr1 expires at time 120, and the read
  of the store, which does not look at the clock, still returns it.
\<close>

theorem expiry_checked_on_verify_counterexample:
  "map_option expires_at (get_otp_record demo_app_pending_state ''dr1'') = Some 120
   \<and> get_otp_record demo_app_pending_state ''dr1'' \<noteq> None"
  using demo_app_pending_record by (simp add: strip_dr1 demo_app_env_def)

section \<open>What a failure discloses about an identifier\<close>

text \<open>
  C8, as amended. The verify operations disclose nothing about an identifier without
  pending record: whoever it is, the answer is the same 400 (no OTP requested for this
  identifier in src/healthcare_app.py, no valid otp found for this identifier or it expired
  in src/api/app.py), and the request of src/api/app.py accepts every identifier that is not
  blank. The requests of src/healthcare_app.py do disclose it: in every state of the server
  the employee login answers 404 unknown employee identifier exactly for the identifiers
  that are no key of the login table \<open>USERS['employee']\<close> as it is at the time of the
  request, so not for a login added since the server started and also for one removed since,
  and the consent request answers 404 patient not found exactly for the ids of no patient.
\<close>

theorem failures_and_identifiers:
  "(i \<noteq> [] \<and> g \<noteq> [] \<and> otp_store hs i = None \<longrightarrow>
      fst (hc_api_verify_otp henv hs sess hnow i g) =
        Json [(''ok'', JBool False), (''error'', JStr ''no OTP requested for this identifier'')] 400)
   \<and> (strip d \<noteq> [] \<and> strip c \<noteq> [] \<and> get_otp_record st (strip d) = None \<longrightarrow>
      fst (app_api_verify_otp env st now j d c) =
        Json [(''error'', JStr ''no valid otp found for this identifier or it expired'')] 400)
   \<and> (strip d \<noteq> [] \<longrightarrow>
      fst (app_api_request_otp env st now rd sl d) =
        Json [(''ok'', JBool True), (''message'', JStr ''OTP generated and sent (demo)''),
              (''otp_validity_seconds'', JInt (OTP_VALIDITY_SECONDS env))] 200)
   \<and> (i \<noteq> [] \<longrightarrow>
      (fst (hc_api_request_otp henv hs hnow rand i) =
         Json [(''ok'', JBool False), (''error'', JStr ''unknown employee identifier'')] 404)
      = (USERS_employee hs i = None))
   \<and> (user_type sess = Some ''employee'' \<and> phone \<noteq> [] \<and> pid \<noteq> [] \<longrightarrow>
      (fst (api_request_patient_otp henv hs sess hnow rand phone pid) =
         Json [(''ok'', JBool False), (''error'', JStr ''patient not found'')] 404)
      = (\<not> list_ex (\<lambda>p. patient_id p = pid) (patients hs)))"
proof (intro conjI impI)
  assume "i \<noteq> [] \<and> g \<noteq> [] \<and> otp_store hs i = None"
  then show "fst (hc_api_verify_otp henv hs sess hnow i g) =
        Json [(''ok'', JBool False), (''error'', JStr ''no OTP requested for this identifier'')] 400"
    by (simp add: hc_verify_absent)
next
  assume "strip d \<noteq> [] \<and> strip c \<noteq> [] \<and> get_otp_record st (strip d) = None"
  then show "fst (app_api_verify_otp env st now j d c) =
        Json [(''error'', JStr ''no valid otp found for this identifier or it expired'')] 400"
    by (simp add: app_verify_absent)
next
  assume "strip d \<noteq> []"
  then show "fst (app_api_request_otp env st now rd sl d) =
        Json [(''ok'', JBool True), (''message'', JStr ''OTP generated and sent (demo)''),
              (''otp_validity_seconds'', JInt (OTP_VALIDITY_SECONDS env))] 200"
    by (simp add: app_request_response)
next
  assume "i \<noteq> []"
  then show "(fst (hc_api_request_otp henv hs hnow rand i) =
         Json [(''ok'', JBool False), (''error'', JStr ''unknown employee identifier'')] 404)
      = (USERS_employee hs i = None)"
    by (simp add: hc_request_response)
next
  assume "user_type sess = Some ''employee'' \<and> phone \<noteq> [] \<and> pid \<noteq> []"
  then show "(fst (api_request_patient_otp henv hs sess hnow rand phone pid) =
         Json [(''ok'', JBool False), (''error'', JStr ''patient not found'')] 404)
      = (\<not> list_ex (\<lambda>p. patient_id p = pid) (patients hs))"
    by (simp add: api_request_patient_otp_def Let_def)
qed

lemma nobody_unknown: "USERS_employee demo_hc_state ''nobody'' = None"
  by (simp add: demo_hc_state_def USERS_employee_initial_def)

lemma emp003_added:
  "USERS_employee demo_changed_state ''emp003'' =
     Some (EmployeeData ''emp789'' ''Priya Nair'' ''Nurse'' 3 [])"
  by (simp add: demo_changed_state_def)

lemma emp002_removed: "USERS_employee demo_changed_state ''emp002'' = None"
  by (simp add: demo_changed_state_def)

theorem failures_and_identifiers_witness:
  "(''nobody'' \<noteq> [] \<and> ''483920'' \<noteq> [] \<and> otp_store demo_hc_state ''nobody'' = None)
   \<and> (strip ''dr1'' \<noteq> [] \<and> strip ''483920'' \<noteq> [] \<and> get_otp_record empty_app_state (strip ''dr1'') = None)
   \<and> (user_type employee_session = Some ''employee'' \<and> ''+1-555-0100'' \<noteq> [] \<and> ''PAT0500'' \<noteq> [])
   \<and> fst (hc_api_verify_otp default_hc_env demo_hc_state no_session 5 ''nobody'' ''483920'') =
        Json [(''ok'', JBool False), (''error'', JStr ''no OTP requested for this identifier'')] 400
   \<and> fst (app_api_verify_otp demo_app_env empty_app_state 5 ''j1'' ''dr1'' ''483920'') =
        Json [(''error'', JStr ''no valid otp found for this identifier or it expired'')] 400
   \<and> fst (app_api_request_otp demo_app_env empty_app_state 5 demo_digits ''5a17'' ''dr1'') =
        Json [(''ok'', JBool True), (''message'', JStr ''OTP generated and sent (demo)''),
              (''otp_validity_seconds'', JInt (OTP_VALIDITY_SECONDS demo_app_env))] 200
   \<and> fst (hc_api_request_otp default_hc_env demo_hc_state 5 483920 ''nobody'') =
        Json [(''ok'', JBool False), (''error'', JStr ''unknown employee identifier'')] 404
   \<and> fst (api_request_patient_otp default_hc_env demo_hc_state employee_session 5 483920
            ''+1-555-0100'' ''PAT0500'') =
        Json [(''ok'', JBool False), (''error'', JStr ''patient not found'')] 404
   \<and> fst (hc_api_request_otp default_hc_env demo_changed_state 5 483920 ''emp003'') \<noteq>
        Json [(''ok'', JBool False), (''error'', JStr ''unknown employee identifier'')] 404
   \<and> fst (hc_api_request_otp default_hc_env demo_changed_state 5 483920 ''emp002'') =
        Json [(''ok'', JBool False), (''error'', JStr ''unknown employee identifier'')] 404"
proof -
  have p1: "''nobody'' \<noteq> [] \<and> ''483920'' \<noteq> [] \<and> otp_store demo_hc_state ''nobody'' = None"
    by (simp add: demo_hc_state_def)
  have p2: "strip ''dr1'' \<noteq> [] \<and> strip ''483920'' \<noteq> [] \<and> get_otp_record empty_app_state (strip ''dr1'') = None"
    using demo_app_absent by (simp add: strip_dr1 strip_483920)
  have p3: "strip ''dr1'' \<noteq> []" by (simp add: strip_dr1)
  have p4: "''nobody'' \<noteq> []" by simp
  have p5: "user_type employee_session = Some ''employee'' \<and> ''+1-555-0100'' \<noteq> [] \<and> ''PAT0500'' \<noteq> []"
    by (simp add: employee_session_def)
  have np: "\<not> list_ex (\<lambda>p. patient_id p = ''PAT0500'') (patients demo_hc_state)"
    by (simp add: demo_hc_state_def demo_patients_def)
  note r = failures_and_identifiers [where i = "''nobody''" and g = "''483920''" and hs = demo_hc_state
      and henv = default_hc_env and sess = employee_session and hnow = 5 and d = "''dr1''"
      and c = "''483920''" and st = empty_app_state and env = demo_app_env and now = 5
      and j = "''j1''" and rd = demo_digits and sl = "''5a17''" and rand = 483920
      and phone = "''+1-555-0100''" and pid = "''PAT0500''"]
  note s = failures_and_identifiers [where i = "''nobody''" and g = "''483920''" and hs = demo_hc_state
      and henv = default_hc_env and sess = no_session and hnow = 5]
  note c1 = s [THEN conjunct1, THEN mp, OF p1]
  note c2 = r [THEN conjunct2, THEN conjunct1, THEN mp, OF p2]
  note c3 = r [THEN conjunct2, THEN conjunct2, THEN conjunct1, THEN mp, OF p3]
  have c4: "fst (hc_api_request_otp default_hc_env demo_hc_state 5 483920 ''nobody'') =
        Json [(''ok'', JBool False), (''error'', JStr ''unknown employee identifier'')] 404"
    using r [THEN conjunct2, THEN conjunct2, THEN conjunct2, THEN conjunct1, THEN mp, OF p4] nobody_unknown
    by blast
  have c5: "fst (api_request_patient_otp default_hc_env demo_hc_state employee_session 5 483920
            ''+1-555-0100'' ''PAT0500'') =
        Json [(''ok'', JBool False), (''error'', JStr ''patient not found'')] 404"
    using r [THEN conjunct2, THEN conjunct2, THEN conjunct2, THEN conjunct2, THEN mp, OF p5] np
    by blast
  have p6: "''emp003'' \<noteq> []" by simp
  have p7: "''emp002'' \<noteq> []" by simp
  note a = failures_and_identifiers [where i = "''emp003''" and hs = demo_changed_state
      and henv = default_hc_env and hnow = 5 and rand = 483920]
  note b = failures_and_identifiers [where i = "''emp002''" and hs = demo_changed_state
      and henv = default_hc_env and hnow = 5 and rand = 483920]
  have c6: "fst (hc_api_request_otp default_hc_env demo_changed_state 5 483920 ''emp003'') \<noteq>
        Json [(''ok'', JBool False), (''error'', JStr ''unknown employee identifier'')] 404"
    using a [THEN conjunct2, THEN conjunct2, THEN conjunct2, THEN conjunct1, THEN mp, OF p6]
      emp003_added
    by simp
  have c7: "fst (hc_api_request_otp default_hc_env demo_changed_state 5 483920 ''emp002'') =
        Json [(''ok'', JBool False), (''error'', JStr ''unknown employee identifier'')] 404"
    using b [THEN conjunct2, THEN conjunct2, THEN conjunct2, THEN conjunct1, THEN mp, OF p7]
      emp002_removed
    by blast
  show ?thesis
    by (rule conjI p1 p2 p5 c1 c2 c3 c4 c5 c6 c7)+
qed

text \<open>
  The claim as written fails: the employee login request answers an identifier that is no
  employee with a failure that says so, and an employee with a success.
\<close>

theorem failures_and_identifiers_counterexample:
  "fst (hc_api_request_otp default_hc_env demo_hc_state 5 483920 ''nobody'') =
     Json [(''ok'', JBool False), (''error'', JStr ''unknown employee identifier'')] 404
   \<and> fst (hc_api_request_otp default_hc_env demo_hc_state 5 483920 ''emp001'') =
     Json [(''ok'', JBool True), (''message'', JStr ''OTP generated (dev-log).'')] 200"
  by (simp add: hc_request_response nobody_unknown emp001_user)


section \<open>The doctor login has no attempt limit\<close>

lemma app_verify_wrong:
  assumes "strip d \<noteq> []" "strip g \<noteq> []"
    and "get_otp_record st (strip d) = Some rec" "t \<le> expires_at rec"
    and "h rec \<noteq> hash_otp env (strip g) (salt rec)"
  shows "app_api_verify_otp env st t j d g = (Json [(''error'', JStr ''invalid otp'')] 401, st)"
  using assms by (simp add: app_api_verify_otp_def Let_def)

lemma app_wrong_attempts:
  assumes "strip d \<noteq> []" "get_otp_record st (strip d) = Some rec"
  shows "\<forall>(t, j, g) \<in> set gs. strip g \<noteq> [] \<and> t \<le> expires_at rec
            \<and> h rec \<noteq> hash_otp env (strip g) (salt rec) \<Longrightarrow>
         app_verify_all env st d gs =
           (replicate (length gs) (Json [(''error'', JStr ''invalid otp'')] 401), st)"
proof (induction gs)
  case Nil
  show ?case by simp
next
  case (Cons x gs)
  obtain t j g where x: "x = (t, j, g)" by (cases x)
  from Cons.prems x have g: "strip g \<noteq> []" "t \<le> expires_at rec"
      "h rec \<noteq> hash_otp env (strip g) (salt rec)"
    by auto
  have step: "app_api_verify_otp env st t j d g = (Json [(''error'', JStr ''invalid otp'')] 401, st)"
    by (rule app_verify_wrong [OF assms(1) g(1) assms(2) g(2) g(3)])
  have rest: "app_verify_all env st d gs =
           (replicate (length gs) (Json [(''error'', JStr ''invalid otp'')] 401), st)"
    using Cons.prems by (intro Cons.IH) auto
  show ?case
    unfolding x app_verify_all.simps step prod.case Let_def rest by simp
qed

text \<open>
  C10. In the verify endpoint of src/api/app.py a wrong candidate, one whose HMAC under the
  record's salt differs from the stored one, is answered 401 invalid otp and leaves the
  state as it was: the record has the fields \<open>h\<close>, \<open>salt\<close> and \<open>expires_at\<close> only, no
  attempt counter. So after any number of wrong candidates within the lifetime of the
  record, a verify with a matching candidate within that lifetime still succeeds.
\<close>

theorem wrong_guesses_change_nothing:
  assumes "strip d \<noteq> []" and "get_otp_record st (strip d) = Some rec"
    and "\<forall>(t, j, g) \<in> set gs. strip g \<noteq> [] \<and> t \<le> expires_at rec
            \<and> h rec \<noteq> hash_otp env (strip g) (salt rec)"
    and "strip c \<noteq> []" and "h rec = hash_otp env (strip c) (salt rec)" and "t' \<le> expires_at rec"
  shows "(let (rs, st1) = app_verify_all env st d gs;
              (r, st2) = app_api_verify_otp env st1 t' j' d c
          in rs = replicate (length gs) (Json [(''error'', JStr ''invalid otp'')] 401)
             \<and> st1 = st
             \<and> (\<exists>tok e. r = Json [(''ok'', JBool True), (''token'', JStr tok), (''expires_at'', JInt e),
                                   (''session_expires_in_seconds'', JInt (SESSION_EXPIRY_SECONDS env))] 200)
             \<and> get_otp_record st2 (strip d) = None)"
proof -
  have all: "app_verify_all env st d gs =
               (replicate (length gs) (Json [(''error'', JStr ''invalid otp'')] 401), st)"
    by (rule app_wrong_attempts [OF assms(1,2,3)])
  have ok: "app_api_verify_otp env st t' j' d c =
     (Json [(''ok'', JBool True),
            (''token'', JStr (fst (create_session_token env t' j' (strip d) (SESSION_EXPIRY_SECONDS env)))),
            (''expires_at'', JInt (snd (snd (create_session_token env t' j' (strip d) (SESSION_EXPIRY_SECONDS env))))),
            (''session_expires_in_seconds'', JInt (SESSION_EXPIRY_SECONDS env))] 200,
      remove_otp st (strip d))"
    by (rule app_verify_match [OF assms(1,4,2,6,5)])
  show ?thesis
    unfolding all prod.case Let_def ok by (simp add: get_after_remove)
qed

lemma strip_000001: "strip ''000001'' = ''000001''"
  by (simp add: strip_def py_isspace_def)

lemma demo_generated:
  "generate_otp demo_digits (OTP_LENGTH demo_app_env) = ''483920''"
  "generate_otp demo_digits 6 = ''483920''"
proof -
  have l: "[0..<6] = [0, 1, 2, 3, 4, 5]" by (simp add: upt_rec)
  have d: "str_nat 4 = ''4''" "str_nat 8 = ''8''" "str_nat 3 = ''3''" "str_nat 9 = ''9''"
      "str_nat 2 = ''2''" "str_nat 0 = ''0''"
    by (simp_all add: str_nat.simps digit_chars)
  show "generate_otp demo_digits 6 = ''483920''"
    by (simp add: generate_otp_def l demo_digits_def d)
  then show "generate_otp demo_digits (OTP_LENGTH demo_app_env) = ''483920''"
    by (simp add: demo_app_env_def)
qed

theorem wrong_guesses_change_nothing_witness:
  "strip ''dr1'' \<noteq> []
   \<and> get_otp_record demo_app_pending_state (strip ''dr1'') =
        Some \<lparr>h = hash_otp demo_app_env (generate_otp demo_digits (OTP_LENGTH demo_app_env)) ''5a17'',
              salt = ''5a17'', expires_at = 0 + OTP_VALIDITY_SECONDS demo_app_env\<rparr>
   \<and> strip ''000001'' \<noteq> ''483920''
   \<and> strip ''483920'' \<noteq> []
   \<and> h \<lparr>h = hash_otp demo_app_env (generate_otp demo_digits (OTP_LENGTH demo_app_env)) ''5a17'',
         salt = ''5a17'', expires_at = 0 + OTP_VALIDITY_SECONDS demo_app_env\<rparr>
       = hash_otp demo_app_env (strip ''483920'')
           (salt \<lparr>h = hash_otp demo_app_env (generate_otp demo_digits (OTP_LENGTH demo_app_env)) ''5a17'',
                  salt = ''5a17'', expires_at = 0 + OTP_VALIDITY_SECONDS demo_app_env\<rparr>)
   \<and> (100::int) \<le> expires_at \<lparr>h = hash_otp demo_app_env (generate_otp demo_digits (OTP_LENGTH demo_app_env)) ''5a17'',
                                salt = ''5a17'', expires_at = 0 + OTP_VALIDITY_SECONDS demo_app_env\<rparr>
   \<and> snd (app_verify_all demo_app_env demo_app_pending_state ''dr1''
            (replicate 20 (7, ''jx'', ''000001''))) = demo_app_pending_state
   \<and> fst (app_api_verify_otp demo_app_env
            (snd (app_verify_all demo_app_env demo_app_pending_state ''dr1''
                    (replicate 20 (7, ''jx'', ''000001''))))
            100 ''j1'' ''dr1'' ''483920'')
       = Json [(''ok'', JBool True), (''token'', JStr ''tok-j1''), (''expires_at'', JInt 220),
               (''session_expires_in_seconds'', JInt 120)] 200"
proof -
  let ?rec = "\<lparr>h = hash_otp demo_app_env (generate_otp demo_digits (OTP_LENGTH demo_app_env)) ''5a17'',
               salt = ''5a17'', expires_at = 0 + OTP_VALIDITY_SECONDS demo_app_env\<rparr>"
  have h1: "strip ''dr1'' \<noteq> []" by (simp add: strip_dr1)
  have h3: "\<forall>(t, j, g) \<in> set (replicate 20 (7::int, ''jx'', ''000001'')).
         strip g \<noteq> [] \<and> t \<le> expires_at ?rec
         \<and> h ?rec \<noteq> hash_otp demo_app_env (strip g) (salt ?rec)"
    by (simp add: strip_000001 demo_generated hash_otp_def demo_app_env_def)
  have h3': "strip ''000001'' \<noteq> ''483920''" by (simp add: strip_000001)
  have h4: "strip ''483920'' \<noteq> []" by (simp add: strip_483920)
  have h5: "h ?rec = hash_otp demo_app_env (strip ''483920'') (salt ?rec)"
    by (simp add: strip_483920 demo_generated)
  have h6: "(100::int) \<le> expires_at ?rec" by (simp add: demo_app_env_def)
  note r = wrong_guesses_change_nothing [OF h1 demo_app_pending_record h3 h4 h5 h6,
      where j' = "''j1''"]
  note all = app_wrong_attempts [OF h1 demo_app_pending_record h3]
  have tok: "create_session_token demo_app_env 100 ''j1'' ''dr1'' 120 = (''tok-j1'', ''j1'', 220)"
    by (simp add: create_session_token_def demo_app_env_def Let_def)
  have ses: "SESSION_EXPIRY_SECONDS demo_app_env = 120" by (simp add: demo_app_env_def)
  have c1: "snd (app_verify_all demo_app_env demo_app_pending_state ''dr1''
            (replicate 20 (7, ''jx'', ''000001''))) = demo_app_pending_state"
    using r unfolding all by simp
  have ok: "app_api_verify_otp demo_app_env demo_app_pending_state 100 ''j1'' ''dr1'' ''483920'' =
     (Json [(''ok'', JBool True), (''token'', JStr ''tok-j1''), (''expires_at'', JInt 220),
            (''session_expires_in_seconds'', JInt 120)] 200,
      remove_otp demo_app_pending_state (strip ''dr1''))"
    using app_verify_match [OF h1 h4 demo_app_pending_record h6 h5, where j = "''j1''"]
    by (simp add: strip_dr1 tok ses)
  have c2: "fst (app_api_verify_otp demo_app_env
            (snd (app_verify_all demo_app_env demo_app_pending_state ''dr1''
                    (replicate 20 (7, ''jx'', ''000001''))))
            100 ''j1'' ''dr1'' ''483920'')
       = Json [(''ok'', JBool True), (''token'', JStr ''tok-j1''), (''expires_at'', JInt 220),
               (''session_expires_in_seconds'', JInt 120)] 200"
    unfolding c1 ok by simp
  show ?thesis
    by (rule conjI h1 demo_app_pending_record h3' h4 h5 h6 c1 c2)+
qed


end
